theory Spec2Isabelle
  imports Main "HOL-Library.Word"
begin

unbundle bit_operations_syntax

section \<open>Values as package reflect shows them\<close>

text \<open>
  The program (\<^verbatim>\<open>src/cli/output.go\<close>) renders a slice of records of some type \<open>T\<close> as
  JSON or CSV. It looks at the records only through Go's package \<^verbatim>\<open>reflect\<close>, so the
  data model of this development is the one of that package: a \<^verbatim>\<open>reflect.Kind\<close>, a
  \<^verbatim>\<open>reflect.Type\<close> and a \<^verbatim>\<open>reflect.Value\<close>. Every panic that the calls of the source
  can raise is a value of the type \<open>panic\<close>; a function that can panic returns
  \<open>panic + 'a\<close> with \<open>Inl\<close> for the panic.
\<close>

text \<open>
  The 27 kinds of \<^verbatim>\<open>reflect.Kind\<close>, in the order of their declaration. The kind
  \<^verbatim>\<open>Int\<close> is written \<open>Int'\<close>, since \<open>Int\<close> is HOL's ASCII notation for intersection.
\<close>

datatype Kind =
    Invalid | Bool | Int' | Int8 | Int16 | Int32 | Int64
  | Uint | Uint8 | Uint16 | Uint32 | Uint64 | Uintptr
  | Float32 | Float64 | Complex64 | Complex128
  | Array | Chan | Func | Interface | Map | Pointer | Slice | String | Struct
  | UnsafePointer

datatype panic =
    ValueError string Kind
  | NilType
  | NotStruct
  | ElemOfInvalidType
  | FieldIndexOutOfBounds
  | InterfaceOfUnexported
  | TypeAssertion string

text \<open>
  What the program and its libraries read of a value's type: \<^verbatim>\<open>Type.String()\<close>, the
  package path that, together with the name, identifies a defined type, and whether
  the type (or the type of a pointer to it) implements \<^verbatim>\<open>json.Marshaler\<close> or
  \<^verbatim>\<open>encoding.TextMarshaler\<close>. \<^verbatim>\<open>String()\<close> prints the package's name and not its
  path, so two different types can print alike (package reflect says that the string
  "is not guaranteed to be unique among types").
\<close>

record Type =
  Type_String :: string
  Type_PkgPath :: string
  Type_Marshaler :: bool

text \<open>
  For examples: a predeclared type such as \<^verbatim>\<open>string\<close>, and a type that a package
  defines, neither with a marshalling method.
\<close>

definition predeclared :: "string \<Rightarrow> Type" where
  [simp]: "predeclared s = \<lparr>Type_String = s, Type_PkgPath = [], Type_Marshaler = False\<rparr>"

definition named_type :: "string \<Rightarrow> string \<Rightarrow> Type" where
  [simp]: "named_type pkg s = \<lparr>Type_String = s, Type_PkgPath = pkg, Type_Marshaler = False\<rparr>"

text \<open>
  \<^verbatim>\<open>reflect.StructField\<close>: the name, the package path (empty exactly for an exported
  field), the tag, and whether the field is an embedded one. A tag is a sequence of
  \<^verbatim>\<open>key:"value"\<close> pairs; it is kept parsed.
\<close>

record StructField =
  Name :: string
  PkgPath :: string
  Tag :: "(string \<times> string) list"
  Anonymous :: bool

definition IsExported :: "StructField \<Rightarrow> bool" where
  "IsExported f = (PkgPath f = [])"

text \<open>\<^verbatim>\<open>StructTag.Get(key)\<close>: the value of the first pair with that key, or the empty string.\<close>

definition Tag_Get :: "(string \<times> string) list \<Rightarrow> string \<Rightarrow> string" where
  "Tag_Get tag key = (case map_of tag key of None \<Rightarrow> [] | Some v \<Rightarrow> v)"

text \<open>
  A floating-point number by its exact value: \<open>Finite s m e\<close> is \<open>(-1)\<^sup>s \<sqdot> m \<sqdot> 2\<^sup>e\<close>.
  \<^verbatim>\<open>Value.Float()\<close> returns a float64; the conversion of a float32 to float64 is exact,
  so both widths decode to this type.
\<close>

datatype float = Finite bool nat int | Infinity bool | NaN

definition Float64frombits :: "64 word \<Rightarrow> float" where
  "Float64frombits w =
     (let s = bit w 63; e = unat (take_bit 11 (drop_bit 52 w)); f = unat (take_bit 52 w)
      in if e = 2047 then (if f = 0 then Infinity s else NaN)
         else if e = 0 then Finite s f (- 1074)
         else Finite s (2 ^ 52 + f) (int e - 1075))"

definition Float32frombits :: "32 word \<Rightarrow> float" where
  "Float32frombits w =
     (let s = bit w 31; e = unat (take_bit 8 (drop_bit 23 w)); f = unat (take_bit 23 w)
      in if e = 255 then (if f = 0 then Infinity s else NaN)
         else if e = 0 then Finite s f (- 149)
         else Finite s (2 ^ 23 + f) (int e - 150))"

text \<open>
  A \<^verbatim>\<open>reflect.Value\<close> is the zero Value (kind Invalid) or holds a type, the read-only
  flag (set on a value obtained through an unexported struct field) and the data,
  one constructor per kind. Integers have their width; \<^verbatim>\<open>int\<close>, \<^verbatim>\<open>uint\<close> and
  \<^verbatim>\<open>uintptr\<close> are 64 bits wide (a 64-bit platform). Channels, functions and unsafe
  pointers carry no data the program could observe.
\<close>

datatype Value =
    Zero_Value
  | Value (Value_typ: Type) (flagRO: bool) (payload: Payload)
and Payload =
    Bool_P bool
  | Int_P "64 word" | Int8_P "8 word" | Int16_P "16 word" | Int32_P "32 word" | Int64_P "64 word"
  | Uint_P "64 word" | Uint8_P "8 word" | Uint16_P "16 word" | Uint32_P "32 word"
  | Uint64_P "64 word" | Uintptr_P "64 word"
  | Float32_P "32 word" | Float64_P "64 word"
  | Complex64_P "32 word" "32 word" | Complex128_P "64 word" "64 word"
  | Array_P "Value list" | Chan_P | Func_P | Interface_P "Value option"
  | Map_P "(Value \<times> Value) list" | Pointer_P "Value option" | Slice_P "Value list option"
  | String_P string | Struct_P "(StructField \<times> Value) list" | UnsafePointer_P

fun Payload_Kind :: "Payload \<Rightarrow> Kind" where
  "Payload_Kind (Bool_P _) = Bool"
| "Payload_Kind (Int_P _) = Int'"
| "Payload_Kind (Int8_P _) = Int8"
| "Payload_Kind (Int16_P _) = Int16"
| "Payload_Kind (Int32_P _) = Int32"
| "Payload_Kind (Int64_P _) = Int64"
| "Payload_Kind (Uint_P _) = Uint"
| "Payload_Kind (Uint8_P _) = Uint8"
| "Payload_Kind (Uint16_P _) = Uint16"
| "Payload_Kind (Uint32_P _) = Uint32"
| "Payload_Kind (Uint64_P _) = Uint64"
| "Payload_Kind (Uintptr_P _) = Uintptr"
| "Payload_Kind (Float32_P _) = Float32"
| "Payload_Kind (Float64_P _) = Float64"
| "Payload_Kind (Complex64_P _ _) = Complex64"
| "Payload_Kind (Complex128_P _ _) = Complex128"
| "Payload_Kind (Array_P _) = Array"
| "Payload_Kind Chan_P = Chan"
| "Payload_Kind Func_P = Func"
| "Payload_Kind (Interface_P _) = Interface"
| "Payload_Kind (Map_P _) = Map"
| "Payload_Kind (Pointer_P _) = Pointer"
| "Payload_Kind (Slice_P _) = Slice"
| "Payload_Kind (String_P _) = String"
| "Payload_Kind (Struct_P _) = Struct"
| "Payload_Kind UnsafePointer_P = UnsafePointer"

text \<open>\<^verbatim>\<open>Value.Kind()\<close>: Invalid for the zero Value.\<close>

fun Value_Kind :: "Value \<Rightarrow> Kind" where
  "Value_Kind Zero_Value = Invalid"
| "Value_Kind (Value t ro p) = Payload_Kind p"

text \<open>\<^verbatim>\<open>Value.Type()\<close> panics on the zero Value.\<close>

fun Value_Type :: "Value \<Rightarrow> panic + Type" where
  "Value_Type Zero_Value = Inl (ValueError ''reflect.Value.Type'' Invalid)"
| "Value_Type (Value t ro p) = Inr t"

text \<open>
  \<^verbatim>\<open>Value.String()\<close> never panics: the string of a string value, and
  \<^verbatim>\<open><T Value>\<close> for a value of another type \<open>T\<close>.
\<close>

fun Value_String :: "Value \<Rightarrow> string" where
  "Value_String Zero_Value = ''<invalid Value>''"
| "Value_String (Value t ro (String_P s)) = s"
| "Value_String (Value t ro p) = ''<'' @ Type_String t @ '' Value>''"

text \<open>
  \<^verbatim>\<open>Value.Int()\<close> returns an int64, sign-extended from the value's width, and panics
  when the kind is not a signed integer kind; \<^verbatim>\<open>Float()\<close> and \<^verbatim>\<open>Bool()\<close> likewise.
  None of them looks at the read-only flag.
\<close>

fun Value_Int :: "Value \<Rightarrow> panic + 64 word" where
  "Value_Int (Value t ro (Int_P i)) = Inr i"
| "Value_Int (Value t ro (Int8_P i)) = Inr (scast i)"
| "Value_Int (Value t ro (Int16_P i)) = Inr (scast i)"
| "Value_Int (Value t ro (Int32_P i)) = Inr (scast i)"
| "Value_Int (Value t ro (Int64_P i)) = Inr i"
| "Value_Int v = Inl (ValueError ''reflect.Value.Int'' (Value_Kind v))"

fun Value_Float :: "Value \<Rightarrow> panic + float" where
  "Value_Float (Value t ro (Float32_P w)) = Inr (Float32frombits w)"
| "Value_Float (Value t ro (Float64_P w)) = Inr (Float64frombits w)"
| "Value_Float v = Inl (ValueError ''reflect.Value.Float'' (Value_Kind v))"

fun Value_Bool :: "Value \<Rightarrow> panic + bool" where
  "Value_Bool (Value t ro (Bool_P b)) = Inr b"
| "Value_Bool v = Inl (ValueError ''reflect.Value.Bool'' (Value_Kind v))"

text \<open>
  \<^verbatim>\<open>Value.Interface()\<close> panics on the zero Value and on a read-only value ("cannot
  return value obtained from unexported field or method"). The interface value it
  returns holds the same type and data.
\<close>

fun Value_Interface :: "Value \<Rightarrow> panic + Value" where
  "Value_Interface Zero_Value = Inl (ValueError ''reflect.Value.Interface'' Invalid)"
| "Value_Interface (Value t ro p) = (if ro then Inl InterfaceOfUnexported else Inr (Value t False p))"

text \<open>
  The type assertion \<^verbatim>\<open>x.(time.Time)\<close> succeeds exactly when the dynamic type of \<open>x\<close>
  is the type \<open>Time\<close> of the standard package \<open>time\<close>, and panics otherwise.
\<close>

definition timeTime :: Type where
  "timeTime = \<lparr>Type_String = ''time.Time'', Type_PkgPath = ''time'', Type_Marshaler = True\<rparr>"

fun assert_Time :: "Value \<Rightarrow> panic + Value" where
  "assert_Time Zero_Value = Inl (TypeAssertion ''nil'')"
| "assert_Time (Value t ro p) =
     (if Type_String t = Type_String timeTime \<and> Type_PkgPath t = Type_PkgPath timeTime
      then Inr (Value t ro p) else Inl (TypeAssertion (Type_String t)))"

section \<open>Packages strconv and fmt\<close>

definition digit :: "nat \<Rightarrow> char" where
  "digit d = ''0123456789abcdefghijklmnopqrstuvwxyz'' ! d"

text \<open>The digits of \<open>n\<close> in base \<open>b\<close>, most significant first; Go requires \<open>2 \<le> b \<le> 36\<close>.\<close>

function digits :: "nat \<Rightarrow> nat \<Rightarrow> string" where
  "digits b n = (if b < 2 \<or> n < b then [digit n] else digits b (n div b) @ [digit (n mod b)])"
  by pat_completeness auto
termination
  by (relation "measure (\<lambda>(b, n). n)") auto

declare digits.simps [simp del]

text \<open>
  \<^verbatim>\<open>strconv.formatBits(u, base, neg)\<close>: a negative number is negated as an unsigned
  64-bit number (so that the least int64 has the magnitude \<open>2\<^sup>6\<^sup>3\<close>) and gets a minus
  sign. \<^verbatim>\<open>FormatInt(i, base)\<close> is \<^verbatim>\<open>formatBits(uint64(i), base, i < 0)\<close>.
\<close>

definition formatBits :: "64 word \<Rightarrow> nat \<Rightarrow> bool \<Rightarrow> string" where
  "formatBits u base neg =
     (if neg then CHR ''-'' # digits base (unat (- u)) else digits base (unat u))"

definition FormatInt :: "64 word \<Rightarrow> nat \<Rightarrow> string" where
  "FormatInt i base = formatBits i base (sint i < 0)"

definition FormatBool :: "bool \<Rightarrow> string" where
  "FormatBool b = (if b then ''true'' else ''false'')"

text \<open>
  \<^verbatim>\<open>fmt.Sprintf("%.2f", f)\<close>. Package fmt prints \<^verbatim>\<open>NaN\<close>, \<^verbatim>\<open>+Inf\<close> and \<^verbatim>\<open>-Inf\<close> for
  the three values that are not numbers. A finite number is rounded to the nearest
  multiple of 1/100 of its exact value, a tie going to the even neighbour; the sign
  is that of the number, also where it rounds to zero. \<open>q\<close> below is the rounded
  magnitude in hundredths.
\<close>

definition round_half_even :: "nat \<Rightarrow> nat \<Rightarrow> nat" where
  "round_half_even n d =
     (let q = n div d; r = n mod d
      in if 2 * r < d then q else if d < 2 * r then q + 1 else if even q then q else q + 1)"

definition hundredths :: "nat \<Rightarrow> int \<Rightarrow> nat" where
  "hundredths m e =
     (if 0 \<le> e then 100 * m * 2 ^ nat e else round_half_even (100 * m) (2 ^ nat (- e)))"

fun Sprintf_2f :: "float \<Rightarrow> string" where
  "Sprintf_2f NaN = ''NaN''"
| "Sprintf_2f (Infinity s) = (if s then ''-Inf'' else ''+Inf'')"
| "Sprintf_2f (Finite s m e) =
     (let q = hundredths m e
      in (if s then ''-'' else []) @ digits 10 (q div 100) @ ''.''
           @ [digit (q div 10 mod 10), digit (q mod 10)])"

section \<open>The scalar stringifier\<close>

text \<open>
  \<^verbatim>\<open>toString\<close> (lines 145 to 164). The method \<^verbatim>\<open>String\<close> of \<^verbatim>\<open>time.Time\<close> is not
  modelled: \<open>TimeString\<close> stands for it, a parameter of every function that calls
  \<open>toString\<close>.
\<close>

definition toString :: "(Value \<Rightarrow> string) \<Rightarrow> Value \<Rightarrow> panic + string" where
  "toString TimeString v =
     (let k = Value_Kind v in
      if k = Invalid then Inr ''<invalid Value>''
      else if k = String then Inr (Value_String v)
      else if k \<in> {Int', Int8, Int16, Int32, Int64} then
        (case Value_Int v of Inl p \<Rightarrow> Inl p | Inr i \<Rightarrow> Inr (FormatInt i 10))
      else if k \<in> {Float32, Float64} then
        (case Value_Float v of Inl p \<Rightarrow> Inl p | Inr f \<Rightarrow> Inr (Sprintf_2f f))
      else if k = Bool then
        (case Value_Bool v of Inl p \<Rightarrow> Inl p | Inr b \<Rightarrow> Inr (FormatBool b))
      else
        (case Value_Type v of
           Inl p \<Rightarrow> Inl p
         | Inr t \<Rightarrow>
             if Type_String t = ''time.Time'' then
               (case Value_Interface v of
                  Inl p \<Rightarrow> Inl p
                | Inr x \<Rightarrow> (case assert_Time x of Inl p \<Rightarrow> Inl p | Inr tm \<Rightarrow> Inr (TimeString tm)))
             else Inr []))"

section \<open>The patterns of the specification\<close>

text \<open>
  The two patterns that the specification gives for the text of a number, read as
  patterns of the whole text: \<^verbatim>\<open>-?\d+\<close> and \<^verbatim>\<open>-?\d+\.\d{2}\<close>.
\<close>

definition is_digit :: "char \<Rightarrow> bool" where
  "is_digit c = (c \<in> set ''0123456789'')"

definition all_digits :: "string \<Rightarrow> bool" where
  "all_digits s = (s \<noteq> [] \<and> list_all is_digit s)"

fun strip_minus :: "string \<Rightarrow> string" where
  "strip_minus [] = []"
| "strip_minus (c # cs) = (if c = CHR ''-'' then cs else c # cs)"

definition matches_int :: "string \<Rightarrow> bool" where
  "matches_int s = all_digits (strip_minus s)"

definition matches_fixed2 :: "string \<Rightarrow> bool" where
  "matches_fixed2 s =
     (let u = strip_minus s; n = length u
      in 3 < n \<and> all_digits (take (n - 3) u) \<and> u ! (n - 3) = CHR ''.'' \<and> all_digits (drop (n - 2) u))"

text \<open>
  The number that a text of digits denotes in base ten, to say which number a text
  prints: the digits are read left to right.
\<close>

definition digit_val :: "char \<Rightarrow> nat" where
  "digit_val c = of_char c - 48"

definition atoi :: "string \<Rightarrow> nat" where
  "atoi s = foldl (\<lambda>a c. 10 * a + digit_val c) 0 s"

section \<open>Types, fields and the lookup of a field\<close>

text \<open>
  What \<^verbatim>\<open>writCSV\<close> reads of the type \<open>T\<close>, a \<^verbatim>\<open>reflect.Type\<close>: its kind, its
  fields when it is a struct type (in the order of their declaration), and its
  element type when it is a pointer type. \<^verbatim>\<open>NumField\<close> and \<^verbatim>\<open>Field\<close> panic on a type
  that is not a struct type, \<^verbatim>\<open>Elem\<close> on a type that has no element type.
\<close>

datatype rtype = rtype (Type_Kind: Kind) (Type_Fields: "StructField list") (Type_Elem: "rtype option")

definition NumField :: "rtype \<Rightarrow> panic + nat" where
  "NumField t = (if Type_Kind t \<noteq> Struct then Inl NotStruct else Inr (length (Type_Fields t)))"

definition Field :: "rtype \<Rightarrow> nat \<Rightarrow> panic + StructField" where
  "Field t i =
     (if Type_Kind t \<noteq> Struct then Inl NotStruct
      else if length (Type_Fields t) \<le> i then Inl FieldIndexOutOfBounds
      else Inr (Type_Fields t ! i))"

definition Elem :: "rtype \<Rightarrow> panic + rtype" where
  "Elem t =
     (if Type_Kind t \<in> {Array, Chan, Map, Pointer, Slice}
      then (case Type_Elem t of None \<Rightarrow> Inl ElemOfInvalidType | Some e \<Rightarrow> Inr e)
      else Inl ElemOfInvalidType)"

text \<open>
  \<^verbatim>\<open>Value.Elem()\<close>: the value a pointer points to or an interface holds, the zero
  Value for a nil pointer or interface, a panic for any other kind. The result is
  read-only when the pointer or interface is.
\<close>

fun set_RO :: "bool \<Rightarrow> Value \<Rightarrow> Value" where
  "set_RO ro Zero_Value = Zero_Value"
| "set_RO ro (Value t _ p) = Value t ro p"

fun Value_Elem :: "Value \<Rightarrow> panic + Value" where
  "Value_Elem (Value t ro (Pointer_P None)) = Inr Zero_Value"
| "Value_Elem (Value t ro (Pointer_P (Some x))) = Inr (set_RO ro x)"
| "Value_Elem (Value t ro (Interface_P None)) = Inr Zero_Value"
| "Value_Elem (Value t ro (Interface_P (Some x))) = Inr (set_RO ro x)"
| "Value_Elem v = Inl (ValueError ''reflect.Value.Elem'' (Value_Kind v))"

text \<open>
  \<^verbatim>\<open>Value.FieldByName(name)\<close> panics when the value is not a struct. Package reflect
  looks at the struct's own fields first and returns the first one of that name,
  read-only when the struct is or when the field is unexported; the two read-only
  flags of package reflect are one flag here, since the program reads them only
  through \<^verbatim>\<open>Value.Interface()\<close>, which panics on either. When no field of its own has
  the name and none is embedded (or the name is empty) the result is the zero
  Value. Otherwise package reflect searches the embedded structs, level by level
  (\<^verbatim>\<open>Type.FieldByNameFunc\<close> and \<^verbatim>\<open>Value.FieldByIndex\<close>): that search is the parameter
  \<open>promoted\<close>. \<^verbatim>\<open>writCSV\<close> asks only for names of the struct type's own fields.
\<close>

fun FieldByName :: "(Value \<Rightarrow> string \<Rightarrow> panic + Value) \<Rightarrow> Value \<Rightarrow> string \<Rightarrow> panic + Value" where
  "FieldByName promoted (Value t ro (Struct_P fs)) name =
     (if name = [] then Inr Zero_Value
      else case find (\<lambda>(f, x). Name f = name) fs of
             Some (f, x) \<Rightarrow> Inr (set_RO (ro \<or> \<not> IsExported f) x)
           | None \<Rightarrow>
               if list_ex (\<lambda>(f, x). Anonymous f) fs then promoted (Value t ro (Struct_P fs)) name
               else Inr Zero_Value)"
| "FieldByName promoted v name = Inl (ValueError ''reflect.Value.FieldByName'' (Value_Kind v))"

section \<open>The destination stream and package encoding/csv\<close>

text \<open>
  An \<^verbatim>\<open>io.Writer\<close>: the bytes written so far and the room left, \<open>None\<close> for a stream
  that never fails. A write that does not fit writes what fits and returns the
  number of bytes written and an error.
\<close>

datatype error = WriteFailed | ErrShortWrite | MarshalError string | SyntaxError

record Writer =
  written :: string
  room :: "nat option"

definition Writer_Write :: "Writer \<Rightarrow> string \<Rightarrow> Writer \<times> nat \<times> error option" where
  "Writer_Write wr p =
     (case room wr of
        None \<Rightarrow> (wr\<lparr>written := written wr @ p\<rparr>, length p, None)
      | Some r \<Rightarrow>
          if length p \<le> r
          then (wr\<lparr>written := written wr @ p, room := Some (r - length p)\<rparr>, length p, None)
          else (wr\<lparr>written := written wr @ take r p, room := Some 0\<rparr>, r, Some WriteFailed))"

text \<open>
  A \<^verbatim>\<open>csv.Writer\<close> writes through a \<^verbatim>\<open>bufio.Writer\<close> of 4096 bytes: the bytes not
  yet sent, the first error (which sticks: every later write returns it) and the
  stream. \<^verbatim>\<open>Flush\<close> sends what the buffer holds. \<^verbatim>\<open>WriteByte\<close> flushes first when
  the buffer is full. \<^verbatim>\<open>WriteString\<close> fills the buffer and flushes it as long as
  more of the string is to come, which is \<^verbatim>\<open>WriteByte\<close> byte after byte, up to the
  first error. (A string longer than the buffer that comes when the buffer is empty
  goes directly to a stream that has a \<^verbatim>\<open>WriteString\<close> method of its own; this
  shortcut is not modelled. It changes no byte that reaches the stream.)
\<close>

record csvWriter =
  csv_buf :: string
  csv_err :: "error option"
  csv_w :: Writer

definition csv_NewWriter :: "Writer \<Rightarrow> csvWriter" where
  "csv_NewWriter wr = \<lparr>csv_buf = [], csv_err = None, csv_w = wr\<rparr>"

definition csv_Flush :: "csvWriter \<Rightarrow> csvWriter" where
  "csv_Flush c =
     (if csv_err c \<noteq> None \<or> csv_buf c = [] then c
      else case Writer_Write (csv_w c) (csv_buf c) of
             (wr, n, e) \<Rightarrow>
               let e' = (if n < length (csv_buf c) \<and> e = None then Some ErrShortWrite else e)
               in c\<lparr>csv_buf := (if e' = None then [] else drop n (csv_buf c)), csv_err := e', csv_w := wr\<rparr>)"

definition bufio_WriteByte :: "csvWriter \<Rightarrow> char \<Rightarrow> csvWriter \<times> error option" where
  "bufio_WriteByte c b =
     (if csv_err c \<noteq> None then (c, csv_err c)
      else if 4096 \<le> length (csv_buf c) then
        (let c' = csv_Flush c
         in if csv_err c' \<noteq> None then (c', csv_err c') else (c'\<lparr>csv_buf := csv_buf c' @ [b]\<rparr>, None))
      else (c\<lparr>csv_buf := csv_buf c @ [b]\<rparr>, None))"

fun bufio_WriteString :: "csvWriter \<Rightarrow> string \<Rightarrow> csvWriter \<times> error option" where
  "bufio_WriteString c [] = (c, csv_err c)"
| "bufio_WriteString c (b # s) =
     (case bufio_WriteByte c b of
        (c', Some e) \<Rightarrow> (c', Some e)
      | (c', None) \<Rightarrow> bufio_WriteString c' s)"

text \<open>
  A field is quoted when it holds the delimiter, a quote, a carriage return or a
  line feed, when it is \<^verbatim>\<open>\.\<close>, or when it starts with a space as Unicode has it; a
  quote inside a quoted field is doubled. The fields of a line are joined by commas
  and the line ends with a line feed. \<open>unicode_spaces\<close> lists the UTF-8 encodings of
  the characters for which \<^verbatim>\<open>unicode.IsSpace\<close> holds.
\<close>

definition unicode_spaces :: "string list" where
  "unicode_spaces =
     [[CHR 0x09], [CHR 0x0A], [CHR 0x0B], [CHR 0x0C], [CHR 0x0D], [CHR 0x20],
      [CHR 0xC2, CHR 0x85], [CHR 0xC2, CHR 0xA0], [CHR 0xE1, CHR 0x9A, CHR 0x80],
      [CHR 0xE2, CHR 0x80, CHR 0x80], [CHR 0xE2, CHR 0x80, CHR 0x81], [CHR 0xE2, CHR 0x80, CHR 0x82],
      [CHR 0xE2, CHR 0x80, CHR 0x83], [CHR 0xE2, CHR 0x80, CHR 0x84], [CHR 0xE2, CHR 0x80, CHR 0x85],
      [CHR 0xE2, CHR 0x80, CHR 0x86], [CHR 0xE2, CHR 0x80, CHR 0x87], [CHR 0xE2, CHR 0x80, CHR 0x88],
      [CHR 0xE2, CHR 0x80, CHR 0x89], [CHR 0xE2, CHR 0x80, CHR 0x8A], [CHR 0xE2, CHR 0x80, CHR 0xA8],
      [CHR 0xE2, CHR 0x80, CHR 0xA9], [CHR 0xE2, CHR 0x80, CHR 0xAF], [CHR 0xE2, CHR 0x81, CHR 0x9F],
      [CHR 0xE3, CHR 0x80, CHR 0x80]]"

definition space_prefix :: "string \<Rightarrow> string option" where
  "space_prefix s = find (\<lambda>sp. take (length sp) s = sp) unicode_spaces"

definition fieldNeedsQuotes :: "string \<Rightarrow> bool" where
  "fieldNeedsQuotes field =
     (if field = [] then False
      else if field = [CHR 0x5C, CHR ''.''] then True
      else if list_ex (\<lambda>c. c = CHR 0x0A \<or> c = CHR 0x0D \<or> c = CHR 0x22 \<or> c = CHR '','') field then True
      else space_prefix field \<noteq> None)"

definition csv_field :: "string \<Rightarrow> string" where
  "csv_field field =
     (if fieldNeedsQuotes field
      then [CHR 0x22] @ concat (map (\<lambda>c. if c = CHR 0x22 then [CHR 0x22, CHR 0x22] else [c]) field)
             @ [CHR 0x22]
      else field)"

fun join :: "string list \<Rightarrow> string \<Rightarrow> string" where
  "join [] sep = []"
| "join [x] sep = x"
| "join (x # y # ys) sep = x @ sep @ join (y # ys) sep"

definition csv_line :: "string list \<Rightarrow> string" where
  "csv_line record = join (map csv_field record) '','' @ [CHR 0x0A]"

text \<open>
  \<^verbatim>\<open>csv.Writer.Write\<close> writes the fields, the commas and the line feed one after the
  other and returns at the first error.
\<close>

definition csv_Write :: "csvWriter \<Rightarrow> string list \<Rightarrow> csvWriter \<times> error option" where
  "csv_Write c record = bufio_WriteString c (csv_line record)"

section \<open>The tabular renderer\<close>

record FieldWithTag =
  name :: string
  tag :: string

text \<open>\<^verbatim>\<open>FieldWithTags.headers\<close> (lines 28 to 38) and \<^verbatim>\<open>FieldWithTags.fields\<close> (40 to 46).\<close>

fun headers :: "FieldWithTag list \<Rightarrow> string list" where
  "headers [] = []"
| "headers (fwt # f) = (if length (tag fwt) = 0 then name fwt else tag fwt) # headers f"

fun fields :: "FieldWithTag list \<Rightarrow> string list" where
  "fields [] = []"
| "fields (fwt # f) = name fwt # fields f"

text \<open>
  The loop of lines 114 to 117, from the index \<open>i\<close> on: one descriptor for each field of
  the struct type, in the order of declaration.
\<close>

function discover :: "rtype \<Rightarrow> nat \<Rightarrow> FieldWithTag list \<Rightarrow> panic + FieldWithTag list" where
  "discover t i fieldWithTags =
     (case NumField t of
        Inl p \<Rightarrow> Inl p
      | Inr n \<Rightarrow>
          if i < n then
            (case Field t i of
               Inl p \<Rightarrow> Inl p
             | Inr field \<Rightarrow>
                 discover t (i + 1)
                   (fieldWithTags @ [\<lparr>name = Name field, tag = Tag_Get (Tag field) ''csv''\<rparr>]))
          else Inr fieldWithTags)"
  by pat_completeness auto
termination
  by (relation "measure (\<lambda>(t, i, fieldWithTags). length (Type_Fields t) - i)")
     (auto simp: NumField_def split: if_splits)

declare discover.simps [simp del]

text \<open>
  The value whose fields a record's row is read from (lines 122 to 128). A record
  is given as \<^verbatim>\<open>reflect.ValueOf(record)\<close>; the zero Value stands for a nil interface,
  whose \<^verbatim>\<open>reflect.TypeOf\<close> is nil, so that \<^verbatim>\<open>t.Kind()\<close> panics.
\<close>

definition record_value :: "Value \<Rightarrow> panic + Value" where
  "record_value record =
     (if record = Zero_Value then Inl NilType
      else if Value_Kind record = Pointer then Value_Elem record
      else Inr record)"

text \<open>The loop of lines 129 to 132: one cell for each field name, in order.\<close>

fun row ::
  "(Value \<Rightarrow> string) \<Rightarrow> (Value \<Rightarrow> string \<Rightarrow> panic + Value) \<Rightarrow> Value \<Rightarrow> string list
     \<Rightarrow> panic + string list" where
  "row TimeString promoted v [] = Inr []"
| "row TimeString promoted v (field # fs) =
     (case FieldByName promoted v field of
        Inl p \<Rightarrow> Inl p
      | Inr value \<Rightarrow>
          (case toString TimeString value of
             Inl p \<Rightarrow> Inl p
           | Inr cell \<Rightarrow>
               (case row TimeString promoted v fs of Inl p \<Rightarrow> Inl p | Inr cells \<Rightarrow> Inr (cell # cells))))"

text \<open>The loop of lines 120 to 134: one row for each record.\<close>

fun rows ::
  "(Value \<Rightarrow> string) \<Rightarrow> (Value \<Rightarrow> string \<Rightarrow> panic + Value) \<Rightarrow> string list \<Rightarrow> Value list
     \<Rightarrow> panic + string list list" where
  "rows TimeString promoted fs [] = Inr []"
| "rows TimeString promoted fs (record # records) =
     (case record_value record of
        Inl p \<Rightarrow> Inl p
      | Inr v \<Rightarrow>
          (case row TimeString promoted v fs of
             Inl p \<Rightarrow> Inl p
           | Inr r \<Rightarrow>
               (case rows TimeString promoted fs records of Inl p \<Rightarrow> Inl p | Inr rs \<Rightarrow> Inr (r # rs))))"

text \<open>
  Lines 102 to 134: the header row and the rows, or the first panic. \<open>T\<close> is
  \<^verbatim>\<open>reflect.TypeOf(zero)\<close>, which is nil (\<open>None\<close>) when \<open>T\<close> is an interface type. A
  slice of records is \<open>None\<close> when it is nil; \<^verbatim>\<open>range\<close> sees no difference between
  a nil and an empty slice.
\<close>

definition elems :: "'a list option \<Rightarrow> 'a list" where
  "elems s = (case s of None \<Rightarrow> [] | Some xs \<Rightarrow> xs)"

definition struct_type :: "rtype option \<Rightarrow> panic + rtype" where
  "struct_type T =
     (case T of
        None \<Rightarrow> Inl NilType
      | Some t \<Rightarrow> if Type_Kind t = Pointer then Elem t else Inr t)"

definition csv_content ::
  "(Value \<Rightarrow> string) \<Rightarrow> (Value \<Rightarrow> string \<Rightarrow> panic + Value) \<Rightarrow> rtype option \<Rightarrow> Value list option
     \<Rightarrow> panic + string list list" where
  "csv_content TimeString promoted T records =
     (case struct_type T of
        Inl p \<Rightarrow> Inl p
      | Inr t \<Rightarrow>
          (case discover t 0 [] of
             Inl p \<Rightarrow> Inl p
           | Inr fieldWithTags \<Rightarrow>
               (case rows TimeString promoted (fields fieldWithTags) (elems records) of
                  Inl p \<Rightarrow> Inl p
                | Inr rs \<Rightarrow> Inr (headers fieldWithTags # rs))))"

text \<open>The loop of lines 135 to 140: it stops at the first error.\<close>

fun write_records :: "csvWriter \<Rightarrow> string list list \<Rightarrow> csvWriter \<times> error option" where
  "write_records c [] = (c, None)"
| "write_records c (record # content) =
     (case csv_Write c record of
        (c', Some e) \<Rightarrow> (c', Some e)
      | (c', None) \<Rightarrow> write_records c' content)"

text \<open>
  \<^verbatim>\<open>writCSV\<close> (lines 101 to 143) returns the stream and the error, or panics. All rows
  are built before the first is written, so a panic leaves the stream as it was.
  The deferred \<^verbatim>\<open>Flush\<close> runs last, and its error is dropped.
\<close>

definition writCSV ::
  "(Value \<Rightarrow> string) \<Rightarrow> (Value \<Rightarrow> string \<Rightarrow> panic + Value) \<Rightarrow> rtype option \<Rightarrow> Value list option
     \<Rightarrow> Writer \<Rightarrow> panic + (Writer \<times> error option)" where
  "writCSV TimeString promoted T records writer =
     (case csv_content TimeString promoted T records of
        Inl p \<Rightarrow> Inl p
      | Inr content \<Rightarrow>
          (case write_records (csv_NewWriter writer) content of
             (c, e) \<Rightarrow> Inr (csv_w (csv_Flush c), e)))"

text \<open>
  Go's type checker gives every element of \<^verbatim>\<open>records []T\<close> the type \<open>T\<close>. For the two
  shapes of \<open>T\<close> that the column discovery of lines 110 to 117 accepts, this is what
  \<^verbatim>\<open>reflect.ValueOf(record)\<close> can be: for a struct type, a struct with the fields of
  the type in their order, each with a name and a value (a field is never the zero
  Value); for a pointer to a struct type, a nil pointer or a pointer to such a
  struct.
\<close>

fun struct_of :: "rtype \<Rightarrow> Value \<Rightarrow> bool" where
  "struct_of t (Value ty ro (Struct_P fs)) =
     (Type_Kind t = Struct \<and> map fst fs = Type_Fields t
      \<and> list_all (\<lambda>(f, x). Name f \<noteq> [] \<and> x \<noteq> Zero_Value) fs)"
| "struct_of t v = False"

fun nil_pointer :: "Value \<Rightarrow> bool" where
  "nil_pointer (Value ty ro (Pointer_P None)) = True"
| "nil_pointer v = False"

fun record_of :: "rtype \<Rightarrow> Value \<Rightarrow> bool" where
  "record_of T (Value ty ro (Pointer_P None)) = (Type_Kind T = Pointer)"
| "record_of T (Value ty ro (Pointer_P (Some x))) =
     (Type_Kind T = Pointer \<and> (case Type_Elem T of None \<Rightarrow> False | Some e \<Rightarrow> struct_of e x))"
| "record_of T v = (Type_Kind T \<noteq> Pointer \<and> struct_of T v)"

text \<open>
  The header row as the specification has it (4.3, steps 1 and 2): for each field of
  the struct type, in the order of declaration, the display-name override (the
  \<^verbatim>\<open>csv\<close> tag) if present, else the identifier. \<open>descriptor\<close> is the
  \<^verbatim>\<open>FieldWithTag\<close> that line 116 builds from a field.
\<close>

definition header_row :: "rtype \<Rightarrow> string list" where
  "header_row t =
     map (\<lambda>f. if Tag_Get (Tag f) ''csv'' = [] then Name f else Tag_Get (Tag f) ''csv'') (Type_Fields t)"

definition descriptor :: "StructField \<Rightarrow> FieldWithTag" where
  "descriptor field = \<lparr>name = Name field, tag = Tag_Get (Tag field) ''csv''\<rparr>"

section \<open>Package encoding/json\<close>

text \<open>
  A JSON text as a tree. A number holds its text, a string and a key the text
  between the quotes, escaped as it is written.
\<close>

datatype json =
    JNull | JBool bool | JNumber string | JString string
  | JArray "json list" | JObject "(string \<times> json) list"

definition quote :: "string \<Rightarrow> string" where
  "quote s = [CHR 0x22] @ s @ [CHR 0x22]"

text \<open>The text that \<^verbatim>\<open>json.Marshal\<close> writes for a tree: no space anywhere.\<close>

fun compact :: "json \<Rightarrow> string" where
  "compact JNull = ''null''"
| "compact (JBool b) = (if b then ''true'' else ''false'')"
| "compact (JNumber s) = s"
| "compact (JString s) = quote s"
| "compact (JArray xs) = ''['' @ join (map compact xs) '','' @ '']''"
| "compact (JObject kvs) =
     ''{'' @ join (map (\<lambda>kv. quote (fst kv) @ '':'' @ compact (snd kv)) kvs) '','' @ ''}''"

text \<open>
  \<^verbatim>\<open>Value.Uint()\<close> and \<^verbatim>\<open>strconv.FormatUint\<close>, with which an unsigned integer is
  encoded.
\<close>

fun Value_Uint :: "Value \<Rightarrow> panic + 64 word" where
  "Value_Uint (Value t ro (Uint_P i)) = Inr i"
| "Value_Uint (Value t ro (Uint8_P i)) = Inr (ucast i)"
| "Value_Uint (Value t ro (Uint16_P i)) = Inr (ucast i)"
| "Value_Uint (Value t ro (Uint32_P i)) = Inr (ucast i)"
| "Value_Uint (Value t ro (Uint64_P i)) = Inr i"
| "Value_Uint (Value t ro (Uintptr_P i)) = Inr i"
| "Value_Uint v = Inl (ValueError ''reflect.Value.Uint'' (Value_Kind v))"

definition FormatUint :: "64 word \<Rightarrow> nat \<Rightarrow> string" where
  "FormatUint i base = formatBits i base False"

text \<open>
  The escaping of a string (\<^verbatim>\<open>appendString\<close> with \<^verbatim>\<open>escapeHTML\<close>, as \<^verbatim>\<open>Marshal\<close> sets
  it), for a string of printable ASCII characters, tabs, line feeds and carriage
  returns. Other strings are left to the library (see \<open>delegated\<close> below): how
  their bytes are escaped depends on their decoding as UTF-8 and on the version of
  the library.
\<close>

definition plain_char :: "char \<Rightarrow> bool" where
  "plain_char c =
     (c = CHR 0x09 \<or> c = CHR 0x0A \<or> c = CHR 0x0D \<or> (32 \<le> (of_char c :: nat) \<and> (of_char c :: nat) < 127))"

definition escape_char :: "char \<Rightarrow> string" where
  "escape_char c =
     (if c = CHR 0x22 then [CHR 0x5C, CHR 0x22]
      else if c = CHR 0x5C then [CHR 0x5C, CHR 0x5C]
      else if c = CHR 0x0A then [CHR 0x5C, CHR ''n'']
      else if c = CHR 0x0D then [CHR 0x5C, CHR ''r'']
      else if c = CHR 0x09 then [CHR 0x5C, CHR ''t'']
      else if c = CHR ''<'' then CHR 0x5C # ''u003c''
      else if c = CHR ''>'' then CHR 0x5C # ''u003e''
      else if c = CHR ''&'' then CHR 0x5C # ''u0026''
      else [c])"

definition escape :: "string \<Rightarrow> string" where
  "escape s = concat (map escape_char s)"

text \<open>
  The key of a field is its \<^verbatim>\<open>json\<close> tag when it has one, else its name. It is
  spelled out for a key of ASCII letters, digits and underscores, which is written
  as it is; a tag with an option (\<^verbatim>\<open>,omitempty\<close>), the tag \<^verbatim>\<open>-\<close> and any other key
  are left to the library.
\<close>

definition name_char :: "char \<Rightarrow> bool" where
  "name_char c = (c \<in> set ''abcdefghijklmnopqrstuvwxyzABCDEFGHIJKLMNOPQRSTUVWXYZ0123456789_'')"

definition json_key :: "StructField \<Rightarrow> string" where
  "json_key f = (if Tag_Get (Tag f) ''json'' = [] then Name f else Tag_Get (Tag f) ''json'')"

text \<open>
  The encoding of a value is spelled out where it follows from the value's kind
  alone; the parameter \<open>enc\<close> stands for the library's encoder everywhere else:
  \<^item> a value whose type has a marshalling method (\<^verbatim>\<open>time.Time\<close> is one);
  \<^item> a floating-point number (printed with the fewest digits that identify it, an
    error for a NaN or an infinity);
  \<^item> a string that is not of plain characters;
  \<^item> an array, a slice, a map and a non-nil interface;
  \<^item> a struct with an embedded field (the library lifts the fields of an embedded
    struct into the object), with an exported field whose key is not of ASCII
    letters, digits and underscores, or with two exported fields of the same key.
\<close>

fun delegated :: "Value \<Rightarrow> bool" where
  "delegated Zero_Value = False"
| "delegated (Value t ro p) =
     (Type_Marshaler t \<or>
      (case p of
         Float32_P _ \<Rightarrow> True
       | Float64_P _ \<Rightarrow> True
       | String_P s \<Rightarrow> \<not> list_all plain_char s
       | Array_P _ \<Rightarrow> True
       | Slice_P _ \<Rightarrow> True
       | Map_P _ \<Rightarrow> True
       | Interface_P (Some _) \<Rightarrow> True
       | Struct_P fs \<Rightarrow>
           list_ex (\<lambda>(f, x). Anonymous f) fs
           \<or> list_ex (\<lambda>(f, x). IsExported f \<and> \<not> list_all name_char (json_key f)) fs
           \<or> \<not> distinct (map json_key (filter IsExported (map fst fs)))
       | _ \<Rightarrow> False))"

text \<open>
  \<open>encode\<close> is the encoder of a value: \<^verbatim>\<open>null\<close> for an invalid value, a nil pointer
  and a nil interface; \<^verbatim>\<open>true\<close> or \<^verbatim>\<open>false\<close>; an integer in base ten; a string in
  quotes; what a pointer points to; for a struct an object of its exported fields
  in the order of declaration, each under its key; an error for a complex number,
  a channel, a function and an unsafe pointer. The last equation of
  \<open>encode_payload\<close> is for the values that are left to the library, which
  \<open>encode\<close> never passes on to it.
\<close>

fun encode :: "(Value \<Rightarrow> error + json) \<Rightarrow> Value \<Rightarrow> error + json"
  and encode_payload :: "(Value \<Rightarrow> error + json) \<Rightarrow> Payload \<Rightarrow> error + json"
  and encode_fields :: "(Value \<Rightarrow> error + json) \<Rightarrow> (StructField \<times> Value) list \<Rightarrow> error + (string \<times> json) list"
where
  "encode enc Zero_Value = Inr JNull"
| "encode enc (Value t ro p) =
     (if delegated (Value t ro p) then enc (Value t ro p) else encode_payload enc p)"
| "encode_payload enc (Bool_P b) = Inr (JBool b)"
| "encode_payload enc (Int_P i) = Inr (JNumber (FormatInt i 10))"
| "encode_payload enc (Int8_P i) = Inr (JNumber (FormatInt (scast i) 10))"
| "encode_payload enc (Int16_P i) = Inr (JNumber (FormatInt (scast i) 10))"
| "encode_payload enc (Int32_P i) = Inr (JNumber (FormatInt (scast i) 10))"
| "encode_payload enc (Int64_P i) = Inr (JNumber (FormatInt i 10))"
| "encode_payload enc (Uint_P i) = Inr (JNumber (FormatUint i 10))"
| "encode_payload enc (Uint8_P i) = Inr (JNumber (FormatUint (ucast i) 10))"
| "encode_payload enc (Uint16_P i) = Inr (JNumber (FormatUint (ucast i) 10))"
| "encode_payload enc (Uint32_P i) = Inr (JNumber (FormatUint (ucast i) 10))"
| "encode_payload enc (Uint64_P i) = Inr (JNumber (FormatUint i 10))"
| "encode_payload enc (Uintptr_P i) = Inr (JNumber (FormatUint i 10))"
| "encode_payload enc (String_P s) = Inr (JString (escape s))"
| "encode_payload enc (Pointer_P None) = Inr JNull"
| "encode_payload enc (Pointer_P (Some x)) = encode enc x"
| "encode_payload enc (Interface_P None) = Inr JNull"
| "encode_payload enc (Struct_P fs) =
     (case encode_fields enc fs of Inl e \<Rightarrow> Inl e | Inr kvs \<Rightarrow> Inr (JObject kvs))"
| "encode_payload enc (Complex64_P _ _) = Inl (MarshalError ''json: unsupported type'')"
| "encode_payload enc (Complex128_P _ _) = Inl (MarshalError ''json: unsupported type'')"
| "encode_payload enc Chan_P = Inl (MarshalError ''json: unsupported type'')"
| "encode_payload enc Func_P = Inl (MarshalError ''json: unsupported type'')"
| "encode_payload enc UnsafePointer_P = Inl (MarshalError ''json: unsupported type'')"
| "encode_payload enc p = Inl (MarshalError ''left to the library'')"
| "encode_fields enc [] = Inr []"
| "encode_fields enc ((f, x) # fs) =
     (if IsExported f then
        (case encode enc x of
           Inl e \<Rightarrow> Inl e
         | Inr j \<Rightarrow>
             (case encode_fields enc fs of
                Inl e \<Rightarrow> Inl e
              | Inr kvs \<Rightarrow> Inr ((json_key f, j) # kvs)))
      else encode_fields enc fs)"

text \<open>The elements of a slice, in order, up to the first error.\<close>

fun encode_all :: "(Value \<Rightarrow> error + json) \<Rightarrow> Value list \<Rightarrow> error + json list" where
  "encode_all enc [] = Inr []"
| "encode_all enc (x # xs) =
     (case encode enc x of
        Inl e \<Rightarrow> Inl e
      | Inr j \<Rightarrow> (case encode_all enc xs of Inl e \<Rightarrow> Inl e | Inr js \<Rightarrow> Inr (j # js)))"

text \<open>
  \<^verbatim>\<open>json.Marshal(records)\<close>. A nil slice is \<^verbatim>\<open>null\<close>. A slice of a type \<open>T\<close> that is
  not an interface type and not of the kind \<^verbatim>\<open>Uint8\<close> is the array of its elements.
  The other slices are left to the library, for which \<open>enc_slice\<close> stands (a slice of
  bytes is a string in base 64; the element of a slice of interfaces is encoded as
  what it holds).
\<close>

definition Marshal ::
  "(Value \<Rightarrow> error + json) \<Rightarrow> (Value list \<Rightarrow> error + json) \<Rightarrow> rtype option \<Rightarrow> Value list option
     \<Rightarrow> error + string" where
  "Marshal enc enc_slice T records =
     (case records of
        None \<Rightarrow> Inr ''null''
      | Some rs \<Rightarrow>
          (case (if T = None \<or> map_option Type_Kind T = Some Uint8 then enc_slice rs
                 else (case encode_all enc rs of Inl e \<Rightarrow> Inl e | Inr js \<Rightarrow> Inr (JArray js))) of
             Inl e \<Rightarrow> Inl e
           | Inr j \<Rightarrow> Inr (compact j)))"

text \<open>
  \<^verbatim>\<open>json.Indent(dst, src, "", "  ")\<close>, byte after byte as \<^verbatim>\<open>appendIndent\<close> does it. Of
  the scanner's state the model keeps whether the byte is inside a string and
  whether it follows a backslash there; outside a string, space is skipped and the
  punctuation gets its line breaks. \<^verbatim>\<open>Indent\<close> also checks the syntax and returns an
  error for a text that is not JSON; the text here is the result of
  \<^verbatim>\<open>json.Marshal\<close>, and the check is not modelled.
\<close>

definition newline :: "nat \<Rightarrow> string" where
  "newline depth = CHR 0x0A # concat (replicate depth ''  '')"

fun appendIndent :: "bool \<Rightarrow> bool \<Rightarrow> bool \<Rightarrow> nat \<Rightarrow> string \<Rightarrow> string" where
  "appendIndent inString escaped needIndent depth [] = []"
| "appendIndent inString escaped needIndent depth (c # src) =
     (if inString then
        c # (if escaped then appendIndent True False False depth src
             else if c = CHR 0x5C then appendIndent True True False depth src
             else if c = CHR 0x22 then appendIndent False False False depth src
             else appendIndent True False False depth src)
      else if c = CHR '' '' \<or> c = CHR 0x09 \<or> c = CHR 0x0D \<or> c = CHR 0x0A then
        appendIndent False False needIndent depth src
      else if c = CHR ''}'' \<or> c = CHR '']'' then
        (if needIndent then c # appendIndent False False False depth src
         else newline (depth - 1) @ c # appendIndent False False False (depth - 1) src)
      else
        (let d = (if needIndent then depth + 1 else depth);
             pre = (if needIndent then newline d else [])
         in if c = CHR ''{'' \<or> c = CHR ''['' then pre @ c # appendIndent False False True d src
            else if c = CHR '','' then pre @ c # newline d @ appendIndent False False False d src
            else if c = CHR '':'' then pre @ c # CHR '' '' # appendIndent False False False d src
            else if c = CHR 0x22 then pre @ c # appendIndent True False False d src
            else pre @ c # appendIndent False False False d src))"

definition Indent :: "string \<Rightarrow> error + string" where
  "Indent src = Inr (appendIndent False False False 0 src)"


section \<open>The structured renderer and the dispatch\<close>

text \<open>\<^verbatim>\<open>writeJson\<close> (lines 82 to 99): the stream and the error.\<close>

definition writeJson ::
  "(Value \<Rightarrow> error + json) \<Rightarrow> (Value list \<Rightarrow> error + json) \<Rightarrow> rtype option \<Rightarrow> Value list option
     \<Rightarrow> Writer \<Rightarrow> Writer \<times> error option" where
  "writeJson enc enc_slice T records writer =
     (case Marshal enc enc_slice T records of
        Inl e \<Rightarrow> (writer, Some e)
      | Inr b \<Rightarrow>
          (case Indent b of
             Inl e \<Rightarrow> (writer, Some e)
           | Inr out \<Rightarrow> (case Writer_Write writer out of (wr, n, e) \<Rightarrow> (wr, e))))"

text \<open>
  \<^verbatim>\<open>strings.TrimSpace\<close> removes the leading and the trailing characters that are space
  in Unicode. \<^verbatim>\<open>strings.ToLower\<close> is modelled on the ASCII letters; on the other
  characters the model leaves the bytes as they are, where the library maps each
  character to its lower case. No character outside ASCII has a lower case among
  the letters of \<^verbatim>\<open>json\<close> and \<^verbatim>\<open>csv\<close>, so the comparisons of \<open>Write\<close> come out the
  same.
\<close>

function trim_prefixes :: "string list \<Rightarrow> string \<Rightarrow> string" where
  "trim_prefixes ps s =
     (case find (\<lambda>p. p \<noteq> [] \<and> take (length p) s = p) ps of
        None \<Rightarrow> s
      | Some p \<Rightarrow> trim_prefixes ps (drop (length p) s))"
  by pat_completeness auto
termination
proof (relation "measure (\<lambda>(ps, s). length s)")
  show "wf (measure (\<lambda>(ps, s). length s))" by simp
next
  fix ps :: "string list" and s p :: string
  assume "find (\<lambda>p. p \<noteq> [] \<and> take (length p) s = p) ps = Some p"
  then have ne: "p \<noteq> []" and tk: "take (length p) s = p"
    by (auto simp: find_Some_iff)
  have "length p = min (length s) (length p)"
    using tk by (metis length_take)
  then have "0 < length p" "length p \<le> length s"
    using ne by simp_all
  then have "length s - length p < length s"
    by linarith
  then show "((ps, drop (length p) s), (ps, s)) \<in> measure (\<lambda>(ps, s). length s)"
    by simp
qed

declare trim_prefixes.simps [simp del]

definition TrimSpace :: "string \<Rightarrow> string" where
  "TrimSpace s = rev (trim_prefixes (map rev unicode_spaces) (rev (trim_prefixes unicode_spaces s)))"

definition ToLower :: "string \<Rightarrow> string" where
  "ToLower s =
     map (\<lambda>c. case map_of (zip ''ABCDEFGHIJKLMNOPQRSTUVWXYZ'' ''abcdefghijklmnopqrstuvwxyz'') c of
                None \<Rightarrow> c
              | Some l \<Rightarrow> l) s"

text \<open>
  \<^verbatim>\<open>Output.Write\<close> (lines 70 to 80): the stream and the error, or a panic. The
  parameters before \<open>T\<close> stand for the library functions that are not modelled.
\<close>

definition Write ::
  "(Value \<Rightarrow> string) \<Rightarrow> (Value \<Rightarrow> string \<Rightarrow> panic + Value) \<Rightarrow> (Value \<Rightarrow> error + json)
     \<Rightarrow> (Value list \<Rightarrow> error + json) \<Rightarrow> rtype option \<Rightarrow> string \<Rightarrow> Writer \<Rightarrow> Value list option
     \<Rightarrow> panic + (Writer \<times> error option)" where
  "Write TimeString promoted enc enc_slice T format writer records =
     (let f = ToLower (TrimSpace format) in
      if f = [] then Inr (writer, None)
      else if f = ''json'' then Inr (writeJson enc enc_slice T records writer)
      else if f = ''csv'' then writCSV TimeString promoted T records writer
      else Inr (writer, None))"

section \<open>Well-formed JSON trees\<close>






section \<open>Examples\<close>

text \<open>
  The record type of the specification's scenarios,
  \<^verbatim>\<open>struct { Name string `csv:"full_name"`; Age int }\<close>, and a record of it; the same
  type with the tag \<^verbatim>\<open>json:"name"\<close> on its first field; a record type with an
  unexported field of type \<^verbatim>\<open>time.Time\<close>,
  \<^verbatim>\<open>struct { Name string; created time.Time }\<close>; a record type with a field whose
  type is not the one of the standard library but prints like it,
  \<^verbatim>\<open>struct { Name string; At time.Time }\<close> where \<^verbatim>\<open>time\<close> is the name of the package
  \<^verbatim>\<open>example.com/clock/time\<close>, which declares \<^verbatim>\<open>type Time uint32\<close>; a stream that never
  fails; and, for
  the parameters, a \<^verbatim>\<open>String\<close> method, a search of embedded fields and encoders that
  the examples do not reach.
\<close>

definition Person :: rtype where
  "Person = rtype Struct
     [\<lparr>Name = ''Name'', PkgPath = [], Tag = [(''csv'', ''full_name'')], Anonymous = False\<rparr>,
      \<lparr>Name = ''Age'', PkgPath = [], Tag = [], Anonymous = False\<rparr>] None"

definition person :: "string \<Rightarrow> 64 word \<Rightarrow> Value" where
  "person n a = Value (named_type ''main'' ''main.Person'') False
     (Struct_P
        [(\<lparr>Name = ''Name'', PkgPath = [], Tag = [(''csv'', ''full_name'')], Anonymous = False\<rparr>,
            Value (predeclared ''string'') False (String_P n)),
         (\<lparr>Name = ''Age'', PkgPath = [], Tag = [], Anonymous = False\<rparr>,
            Value (predeclared ''int'') False (Int_P a))])"



definition Event :: rtype where
  "Event = rtype Struct
     [\<lparr>Name = ''Name'', PkgPath = [], Tag = [], Anonymous = False\<rparr>,
      \<lparr>Name = ''created'', PkgPath = ''main'', Tag = [], Anonymous = False\<rparr>] None"

definition event :: "string \<Rightarrow> (StructField \<times> Value) list \<Rightarrow> Value" where
  "event n tm = Value (named_type ''main'' ''main.Event'') False
     (Struct_P
        [(\<lparr>Name = ''Name'', PkgPath = [], Tag = [], Anonymous = False\<rparr>,
            Value (predeclared ''string'') False (String_P n)),
         (\<lparr>Name = ''created'', PkgPath = ''main'', Tag = [], Anonymous = False\<rparr>,
            Value timeTime False (Struct_P tm))])"

definition otherTime :: Type where
  "otherTime = named_type ''example.com/clock/time'' ''time.Time''"

definition Tick :: rtype where
  "Tick = rtype Struct
     [\<lparr>Name = ''Name'', PkgPath = [], Tag = [], Anonymous = False\<rparr>,
      \<lparr>Name = ''At'', PkgPath = [], Tag = [], Anonymous = False\<rparr>] None"

definition tick :: "string \<Rightarrow> 32 word \<Rightarrow> Value" where
  "tick n a = Value (named_type ''main'' ''main.Tick'') False
     (Struct_P
        [(\<lparr>Name = ''Name'', PkgPath = [], Tag = [], Anonymous = False\<rparr>,
            Value (predeclared ''string'') False (String_P n)),
         (\<lparr>Name = ''At'', PkgPath = [], Tag = [], Anonymous = False\<rparr>,
            Value otherTime False (Uint32_P a))])"

definition stdout :: Writer where
  "stdout = \<lparr>written = [], room = None\<rparr>"

definition no_time :: "Value \<Rightarrow> string" where
  "no_time v = []"

definition no_promoted :: "Value \<Rightarrow> string \<Rightarrow> panic + Value" where
  "no_promoted v field = Inr Zero_Value"

definition no_enc :: "Value \<Rightarrow> error + json" where
  "no_enc v = Inl (MarshalError [])"

definition no_enc_slice :: "Value list \<Rightarrow> error + json" where
  "no_enc_slice vs = Inl (MarshalError [])"

section \<open>Properties of the number formats\<close>

lemma digits_nonempty: "digits b n \<noteq> []"
  by (subst digits.simps) simp

lemma digit_is_digit: "d < 10 \<Longrightarrow> is_digit (digit d)"
  unfolding is_digit_def digit_def
  by (simp add: numeral_eq_Suc less_Suc_eq) (auto simp: nth_Cons')

lemma digit_val_digit: "d < 10 \<Longrightarrow> digit_val (digit d) = d"
  unfolding digit_val_def digit_def
  by (simp add: numeral_eq_Suc less_Suc_eq) (auto simp: nth_Cons')

lemma digits_all: "list_all is_digit (digits 10 n)"
proof (induction n rule: less_induct)
  case (less n)
  show ?case
  proof (cases "n < 10")
    case True
    then show ?thesis by (subst digits.simps) (simp add: digit_is_digit)
  next
    case False
    then have "n div 10 < n" by simp
    from less[OF this] False show ?thesis
      by (subst digits.simps) (simp add: digit_is_digit)
  qed
qed

lemma all_digits_digits: "all_digits (digits 10 n)"
  by (simp add: all_digits_def digits_nonempty digits_all)

lemma is_digit_not_minus: "is_digit c \<Longrightarrow> c \<noteq> CHR ''-''"
  by (auto simp: is_digit_def)

lemma strip_minus_digits: "all_digits s \<Longrightarrow> strip_minus s = s"
  by (cases s) (auto simp: all_digits_def dest: is_digit_not_minus)

lemma all_digits_plain:
  assumes "all_digits s"
  shows "CHR ''.'' \<notin> set s \<and> CHR '','' \<notin> set s"
proof -
  have "\<forall>c\<in>set s. is_digit c"
    using assms by (simp add: all_digits_def list_all_iff)
  moreover have "\<not> is_digit CHR ''.''" "\<not> is_digit CHR '',''"
    by (simp_all add: is_digit_def)
  ultimately show ?thesis by blast
qed

lemma atoi_snoc: "atoi (s @ [c]) = 10 * atoi s + digit_val c"
  by (simp add: atoi_def)

lemma atoi_digits: "atoi (digits 10 n) = n"
proof (induction n rule: less_induct)
  case (less n)
  show ?case
  proof (cases "n < 10")
    case True
    then show ?thesis by (subst digits.simps) (simp add: atoi_def digit_val_digit)
  next
    case False
    then have "n div 10 < n" by simp
    from less[OF this] False show ?thesis
      by (subst digits.simps) (simp add: atoi_snoc digit_val_digit)
  qed
qed

lemma filter_digits: "filter is_digit (digits 10 n) = digits 10 n"
  using digits_all[of n] by (simp add: list_all_iff)

text \<open>The magnitude that \<open>formatBits\<close> prints is the absolute value of the int64.\<close>

lemma uint_word_of_int_64: "uint (word_of_int k :: 64 word) = k mod 2 ^ 64"
  by (simp add: uint_word_of_int)

lemma unat_nonneg: "\<not> sint (i :: 64 word) < 0 \<Longrightarrow> unat i = nat (sint i)"
proof -
  assume a: "\<not> sint i < 0"
  have b: "sint i < 2 ^ 63" using sint_lt[of i] by simp
  have "uint i = uint (word_of_int (sint i) :: 64 word)" by simp
  also have "\<dots> = sint i mod 2 ^ 64" by (rule uint_word_of_int_64)
  also have "\<dots> = sint i" using a b by simp
  finally show ?thesis by (simp add: unat_eq_nat_uint)
qed

lemma unat_neg: "sint (i :: 64 word) < 0 \<Longrightarrow> unat (- i) = nat (- sint i)"
proof -
  assume a: "sint i < 0"
  have b: "- (2 ^ 63) \<le> sint i" using sint_ge[of i] by simp
  have "uint (- i) = uint (word_of_int (- sint i) :: 64 word)" by simp
  also have "\<dots> = (- sint i) mod 2 ^ 64" by (rule uint_word_of_int_64)
  also have "\<dots> = - sint i" using a b by simp
  finally show ?thesis by (simp add: unat_eq_nat_uint)
qed

lemma FormatInt_text:
  "FormatInt i 10 = (if sint i < 0 then ''-'' else []) @ digits 10 (nat \<bar>sint i\<bar>)"
proof (cases "sint i < 0")
  case True
  then show ?thesis
    unfolding FormatInt_def formatBits_def unat_neg[OF True] by simp
next
  case False
  then show ?thesis
    unfolding FormatInt_def formatBits_def unat_nonneg[OF False] by simp
qed

lemma matches_int_FormatInt: "matches_int (FormatInt i 10)"
  by (simp add: matches_int_def FormatInt_def formatBits_def all_digits_digits strip_minus_digits)

lemma plain_FormatInt: "CHR ''.'' \<notin> set (FormatInt i 10) \<and> CHR '','' \<notin> set (FormatInt i 10)"
  using all_digits_plain[OF all_digits_digits]
  by (simp add: FormatInt_def formatBits_def)

lemma atoi_FormatInt: "atoi (strip_minus (FormatInt i 10)) = nat \<bar>sint i\<bar>"
  by (simp add: FormatInt_text strip_minus_digits all_digits_digits atoi_digits)

lemma matches_fixed2_Sprintf: "matches_fixed2 (Sprintf_2f (Finite s m e))"
proof -
  define q where "q = hundredths m e"
  define I where "I = digits 10 (q div 100)"
  define u where "u = I @ ''.'' @ [digit (q div 10 mod 10), digit (q mod 10)]"
  have I: "all_digits I" by (simp add: I_def all_digits_digits)
  then have ne: "I \<noteq> []" by (simp add: all_digits_def)
  have hd: "strip_minus u = u"
    using I ne by (cases I) (auto simp: u_def all_digits_def dest: is_digit_not_minus)
  have len: "length u = length I + 3" by (simp add: u_def)
  have fr: "all_digits [digit (q div 10 mod 10), digit (q mod 10)]"
    by (simp add: all_digits_def digit_is_digit)
  have mu: "matches_fixed2 u"
    using I ne fr unfolding matches_fixed2_def Let_def hd len
    by (simp add: u_def nth_append)
  have "matches_fixed2 (CHR ''-'' # u)"
    using I ne fr unfolding matches_fixed2_def Let_def len
    by (simp add: u_def nth_append)
  with mu show ?thesis
    by (cases s) (simp_all add: q_def[symmetric] Let_def u_def I_def)
qed

lemma decimal_recompose: "10 * (10 * (q div 100) + q div 10 mod 10) + q mod 10 = (q::nat)"
proof -
  have "q div 100 = q div 10 div 10" by (simp add: div_mult2_eq)
  then have "10 * (q div 100) + q div 10 mod 10 = q div 10" by simp
  then show ?thesis by simp
qed

lemma atoi_Sprintf: "atoi (filter is_digit (Sprintf_2f (Finite s m e))) = hundredths m e"
proof -
  define q where "q = hundredths m e"
  have nd: "\<not> is_digit CHR ''.''" "\<not> is_digit CHR ''-''" by (simp_all add: is_digit_def)
  have "atoi (filter is_digit (Sprintf_2f (Finite s m e)))
      = atoi ((digits 10 (q div 100) @ [digit (q div 10 mod 10)]) @ [digit (q mod 10)])"
    by (simp add: q_def[symmetric] Let_def nd filter_digits digit_is_digit)
  also have "\<dots> = 10 * (10 * (q div 100) + q div 10 mod 10) + q mod 10"
    by (simp only: atoi_snoc atoi_digits) (simp add: digit_val_digit)
  also have "\<dots> = q" by (rule decimal_recompose)
  finally show ?thesis by (simp add: q_def)
qed

lemma round_half_even_nearest:
  assumes "0 < d"
  shows "2 * \<bar>int (round_half_even n d) * int d - int n\<bar> \<le> int d"
proof -
  have n: "int n = int (n div d) * int d + int (n mod d)"
    by (metis of_nat_add of_nat_mult div_mult_mod_eq)
  have "n mod d < d" using assms by simp
  then show ?thesis
    unfolding round_half_even_def Let_def
    by (auto simp: n algebra_simps)
qed

text \<open>The printed hundredths are within one half of the number's hundred-fold.\<close>

lemma hundredths_nearest:
  "2 * \<bar>int (hundredths m e) * 2 ^ nat (- e) - 100 * int m * 2 ^ nat e\<bar> \<le> 2 ^ nat (- e)"
proof (cases "0 \<le> e")
  case True
  then show ?thesis by (simp add: hundredths_def)
next
  case False
  define d :: nat where "d = 2 ^ nat (- e)"
  have d: "0 < d" by (simp add: d_def)
  have i: "int d = 2 ^ nat (- e)" by (simp add: d_def)
  have h: "hundredths m e = round_half_even (100 * m) d"
    using False by (simp add: hundredths_def d_def)
  have e: "nat e = 0" using False by simp
  have "2 * \<bar>int (round_half_even (100 * m) d) * int d - int (100 * m)\<bar> \<le> int d"
    by (rule round_half_even_nearest[OF d])
  then show ?thesis
    unfolding h e i[symmetric] by simp
qed

section \<open>Properties of the scalar stringifier\<close>

lemma Value_Int_signed:
  "Value_Kind v \<in> {Int', Int8, Int16, Int32, Int64} \<Longrightarrow> \<exists>i. Value_Int v = Inr i"
proof (cases v)
  case Zero_Value
  assume "Value_Kind v \<in> {Int', Int8, Int16, Int32, Int64}"
  with Zero_Value show ?thesis by simp
next
  case (Value t ro p)
  assume "Value_Kind v \<in> {Int', Int8, Int16, Int32, Int64}"
  with Value show ?thesis by (cases p) simp_all
qed

lemma Value_Float_float:
  "Value_Kind v \<in> {Float32, Float64} \<Longrightarrow> \<exists>f. Value_Float v = Inr f"
proof (cases v)
  case Zero_Value
  assume "Value_Kind v \<in> {Float32, Float64}"
  with Zero_Value show ?thesis by simp
next
  case (Value t ro p)
  assume "Value_Kind v \<in> {Float32, Float64}"
  with Value show ?thesis by (cases p) simp_all
qed

lemma toString_signed:
  "Value_Kind v \<in> {Int', Int8, Int16, Int32, Int64} \<Longrightarrow> Value_Int v = Inr i
     \<Longrightarrow> toString S v = Inr (FormatInt i 10)"
  unfolding toString_def Let_def by auto

lemma toString_float:
  "Value_Kind v \<in> {Float32, Float64} \<Longrightarrow> Value_Float v = Inr f
     \<Longrightarrow> toString S v = Inr (Sprintf_2f f)"
  unfolding toString_def Let_def by auto

text \<open>
  Claim C3, as amended. A value of a signed integer kind prints as its int64 in base
  ten: an optional minus sign and digits, nothing else (the pattern \<^verbatim>\<open>-?\d+\<close>, no
  point and no comma), and the digits denote the absolute value. A value of a
  floating-point kind prints as \<^verbatim>\<open>Sprintf("%.2f")\<close> prints its float64: for a finite
  number a text of the pattern \<^verbatim>\<open>-?\d+\.\d{2}\<close> whose digits denote the hundredths
  nearest to the number (within one half, so rounded and not truncated); for an
  infinity \<^verbatim>\<open>+Inf\<close> or \<^verbatim>\<open>-Inf\<close> and for a NaN \<^verbatim>\<open>NaN\<close>, which are not of the pattern.
\<close>

theorem toString_number_text:
  "(Value_Kind v \<in> {Int', Int8, Int16, Int32, Int64} \<longrightarrow>
      (\<exists>i. Value_Int v = Inr i \<and> toString S v = Inr (FormatInt i 10)
         \<and> matches_int (FormatInt i 10)
         \<and> CHR ''.'' \<notin> set (FormatInt i 10) \<and> CHR '','' \<notin> set (FormatInt i 10)
         \<and> atoi (strip_minus (FormatInt i 10)) = nat \<bar>sint i\<bar>))
   \<and> (Value_Kind v \<in> {Float32, Float64} \<longrightarrow>
      (\<exists>f. Value_Float v = Inr f \<and> toString S v = Inr (Sprintf_2f f)
         \<and> (case f of
               Finite s m e \<Rightarrow>
                 matches_fixed2 (Sprintf_2f f)
                 \<and> atoi (filter is_digit (Sprintf_2f f)) = hundredths m e
                 \<and> 2 * \<bar>int (hundredths m e) * 2 ^ nat (- e) - 100 * int m * 2 ^ nat e\<bar> \<le> 2 ^ nat (- e)
             | Infinity s \<Rightarrow> Sprintf_2f f = (if s then ''-Inf'' else ''+Inf'')
             | NaN \<Rightarrow> Sprintf_2f f = ''NaN'')))"
proof (intro conjI impI)
  assume k: "Value_Kind v \<in> {Int', Int8, Int16, Int32, Int64}"
  then obtain i where i: "Value_Int v = Inr i"
    using Value_Int_signed by blast
  have "toString S v = Inr (FormatInt i 10)"
    using k i by (rule toString_signed)
  with i show "\<exists>i. Value_Int v = Inr i \<and> toString S v = Inr (FormatInt i 10)
         \<and> matches_int (FormatInt i 10)
         \<and> CHR ''.'' \<notin> set (FormatInt i 10) \<and> CHR '','' \<notin> set (FormatInt i 10)
         \<and> atoi (strip_minus (FormatInt i 10)) = nat \<bar>sint i\<bar>"
    using matches_int_FormatInt plain_FormatInt atoi_FormatInt by blast
next
  assume k: "Value_Kind v \<in> {Float32, Float64}"
  then obtain f where f: "Value_Float v = Inr f"
    using Value_Float_float by blast
  have t: "toString S v = Inr (Sprintf_2f f)"
    using k f by (rule toString_float)
  have "case f of
               Finite s m e \<Rightarrow>
                 matches_fixed2 (Sprintf_2f f)
                 \<and> atoi (filter is_digit (Sprintf_2f f)) = hundredths m e
                 \<and> 2 * \<bar>int (hundredths m e) * 2 ^ nat (- e) - 100 * int m * 2 ^ nat e\<bar> \<le> 2 ^ nat (- e)
             | Infinity s \<Rightarrow> Sprintf_2f f = (if s then ''-Inf'' else ''+Inf'')
             | NaN \<Rightarrow> Sprintf_2f f = ''NaN''"
  proof (cases f)
    case (Finite s m e)
    then show ?thesis
      using matches_fixed2_Sprintf[of s m e] atoi_Sprintf[of s m e] hundredths_nearest[of m e]
      by (simp del: Sprintf_2f.simps)
  next
    case (Infinity s)
    then show ?thesis by simp
  next
    case NaN
    then show ?thesis by simp
  qed
  with f t show "\<exists>f. Value_Float v = Inr f \<and> toString S v = Inr (Sprintf_2f f)
         \<and> (case f of
               Finite s m e \<Rightarrow>
                 matches_fixed2 (Sprintf_2f f)
                 \<and> atoi (filter is_digit (Sprintf_2f f)) = hundredths m e
                 \<and> 2 * \<bar>int (hundredths m e) * 2 ^ nat (- e) - 100 * int m * 2 ^ nat e\<bar> \<le> 2 ^ nat (- e)
             | Infinity s \<Rightarrow> Sprintf_2f f = (if s then ''-Inf'' else ''+Inf'')
             | NaN \<Rightarrow> Sprintf_2f f = ''NaN'')"
    by blast
qed

theorem toString_number_text_witness:
  "toString (\<lambda>_. []) (Value (predeclared ''int8'') False (Int8_P (- 5))) = Inr ''-5''
   \<and> matches_int ''-5''
   \<and> toString (\<lambda>_. []) (Value (predeclared ''float64'') False
         (Float64_P 0x3FD8000000000000)) = Inr ''0.38''
   \<and> matches_fixed2 ''0.38''"
proof -
  let ?S = "\<lambda>_::Value. []::string"
  let ?vi = "Value (predeclared ''int8'') False (Int8_P (- 5))"
  let ?vf = "Value (predeclared ''float64'') False (Float64_P 0x3FD8000000000000)"
  have ki: "Value_Kind ?vi \<in> {Int', Int8, Int16, Int32, Int64}" by simp
  have kf: "Value_Kind ?vf \<in> {Float32, Float64}" by simp
  have vi: "Value_Int ?vi = Inr (- 5)" by simp
  have fi: "FormatInt (- 5) 10 = ''-5''"
    by (simp add: FormatInt_def formatBits_def digits.simps digit_def)
  have bits: "Float64frombits 0x3FD8000000000000 = Finite False 6755399441055744 (- 54)"
    unfolding Float64frombits_def Let_def by simp
  have vf: "Value_Float ?vf = Inr (Finite False 6755399441055744 (- 54))"
    by (simp add: bits)
  have ff: "Sprintf_2f (Finite False 6755399441055744 (- 54)) = ''0.38''"
    by (simp add: hundredths_def round_half_even_def Let_def digits.simps digit_def)
  from toString_number_text[of ?vi ?S] ki
  obtain i where "Value_Int ?vi = Inr i" "toString ?S ?vi = Inr (FormatInt i 10)"
      "matches_int (FormatInt i 10)"
    by blast
  with vi fi have 1: "toString ?S ?vi = Inr ''-5''" "matches_int ''-5''" by simp_all
  from toString_number_text[of ?vf ?S] kf
  obtain f where f: "Value_Float ?vf = Inr f" "toString ?S ?vf = Inr (Sprintf_2f f)"
      "case f of Finite s m e \<Rightarrow>
                 matches_fixed2 (Sprintf_2f f)
                 \<and> atoi (filter is_digit (Sprintf_2f f)) = hundredths m e
                 \<and> 2 * \<bar>int (hundredths m e) * 2 ^ nat (- e) - 100 * int m * 2 ^ nat e\<bar> \<le> 2 ^ nat (- e)
             | Infinity s \<Rightarrow> Sprintf_2f f = (if s then ''-Inf'' else ''+Inf'')
             | NaN \<Rightarrow> Sprintf_2f f = ''NaN''"
    by blast
  from f(1) vf have "f = Finite False 6755399441055744 (- 54)" by simp
  with f(2,3) ff have 2: "toString ?S ?vf = Inr ''0.38''" "matches_fixed2 ''0.38''"
    by (simp_all del: Sprintf_2f.simps)
  from 1 2 show ?thesis by blast
qed

text \<open>
  Claim C3 as stated fails: the float64 with the bits \<^verbatim>\<open>0x7FF8000000000000\<close> is a NaN,
  and its cell is \<^verbatim>\<open>NaN\<close>, which has no digits.
\<close>

theorem toString_NaN_counterexample:
  "toString (\<lambda>_. []) (Value (predeclared ''float64'') False
       (Float64_P 0x7FF8000000000000)) = Inr ''NaN''
   \<and> \<not> matches_fixed2 ''NaN''"
proof -
  have bits: "Float64frombits 0x7FF8000000000000 = NaN"
    unfolding Float64frombits_def Let_def by simp
  have "toString (\<lambda>_. []) (Value (predeclared ''float64'') False
       (Float64_P 0x7FF8000000000000)) = Inr ''NaN''"
    by (simp add: toString_def bits)
  moreover have "\<not> matches_fixed2 ''NaN''"
    by (simp add: matches_fixed2_def)
  ultimately show ?thesis by blast
qed

text \<open>
  A value of an unsigned integer kind (any width) is matched by no case of the
  switch, not by the integer case either. Unless its type prints as \<^verbatim>\<open>time.Time\<close>, its
  text is the empty string.
\<close>

lemma toString_unsigned_other:
  assumes "Payload_Kind p \<in> {Uint, Uint8, Uint16, Uint32, Uint64, Uintptr}"
    and "Type_String t \<noteq> ''time.Time''"
  shows "toString S (Value t ro p) = Inr []
    \<and> Value_Kind (Value t ro p) \<notin> {Int', Int8, Int16, Int32, Int64}"
  using assms unfolding toString_def Let_def by auto

section \<open>Properties of the tabular renderer\<close>

lemma discover_from:
  "Type_Kind t = Struct \<Longrightarrow> i \<le> length (Type_Fields t) \<Longrightarrow>
     discover t i acc = Inr (acc @ map descriptor (drop i (Type_Fields t)))"
proof (induction "length (Type_Fields t) - i" arbitrary: i acc)
  case 0
  then show ?case
    by (subst discover.simps) (simp add: NumField_def)
next
  case (Suc k)
  then have lt: "i < length (Type_Fields t)" by simp
  have d: "drop i (Type_Fields t) = Type_Fields t ! i # drop (Suc i) (Type_Fields t)"
    using lt by (simp add: Cons_nth_drop_Suc)
  have k: "k = length (Type_Fields t) - Suc i" using Suc.hyps(2) by simp
  have le: "Suc i \<le> length (Type_Fields t)" using lt by simp
  show ?case
    using Suc.hyps(1)[OF k Suc.prems(1) le] lt Suc.prems(1)
    by (subst discover.simps) (simp add: NumField_def Field_def d descriptor_def)
qed

lemma discover_struct:
  "Type_Kind t = Struct \<Longrightarrow> discover t 0 [] = Inr (map descriptor (Type_Fields t))"
  using discover_from[of t 0 "[]"] by simp

lemma discover_not_struct:
  "Type_Kind t \<noteq> Struct \<Longrightarrow> discover t i acc = Inl NotStruct"
  by (subst discover.simps) (simp add: NumField_def)

lemma csv_Flush_ok:
  assumes "room (csv_w c) = None" "csv_err c = None"
  shows "csv_err (csv_Flush c) = None \<and> csv_buf (csv_Flush c) = []
    \<and> room (csv_w (csv_Flush c)) = None
    \<and> written (csv_w (csv_Flush c)) = written (csv_w c) @ csv_buf c"
  using assms by (simp add: csv_Flush_def Writer_Write_def Let_def)

lemma bufio_WriteByte_ok:
  assumes "room (csv_w c) = None" "csv_err c = None"
  shows "snd (bufio_WriteByte c b) = None
    \<and> csv_err (fst (bufio_WriteByte c b)) = None
    \<and> room (csv_w (fst (bufio_WriteByte c b))) = None
    \<and> written (csv_w (fst (bufio_WriteByte c b))) @ csv_buf (fst (bufio_WriteByte c b))
        = written (csv_w c) @ csv_buf c @ [b]"
  using assms csv_Flush_ok[OF assms]
  by (simp add: bufio_WriteByte_def Let_def)

lemma bufio_WriteString_ok:
  "room (csv_w c) = None \<Longrightarrow> csv_err c = None \<Longrightarrow>
   snd (bufio_WriteString c s) = None
    \<and> csv_err (fst (bufio_WriteString c s)) = None
    \<and> room (csv_w (fst (bufio_WriteString c s))) = None
    \<and> written (csv_w (fst (bufio_WriteString c s))) @ csv_buf (fst (bufio_WriteString c s))
        = written (csv_w c) @ csv_buf c @ s"
proof (induction s arbitrary: c)
  case Nil
  then show ?case by simp
next
  case (Cons b s)
  obtain c' e where r: "bufio_WriteByte c b = (c', e)" by (cases "bufio_WriteByte c b")
  from bufio_WriteByte_ok[OF Cons.prems, of b] r
  have 1: "e = None" "csv_err c' = None" "room (csv_w c') = None"
    "written (csv_w c') @ csv_buf c' = written (csv_w c) @ csv_buf c @ [b]"
    by simp_all
  from Cons.IH[OF 1(3) 1(2)] 1 r show ?case by simp
qed

lemma write_records_ok:
  "room (csv_w c) = None \<Longrightarrow> csv_err c = None \<Longrightarrow>
   snd (write_records c content) = None
    \<and> csv_err (fst (write_records c content)) = None
    \<and> room (csv_w (fst (write_records c content))) = None
    \<and> written (csv_w (fst (write_records c content))) @ csv_buf (fst (write_records c content))
        = written (csv_w c) @ csv_buf c @ concat (map csv_line content)"
proof (induction content arbitrary: c)
  case Nil
  then show ?case by simp
next
  case (Cons r content)
  obtain c' e where w: "csv_Write c r = (c', e)" by (cases "csv_Write c r")
  from bufio_WriteString_ok[OF Cons.prems, of "csv_line r"] w
  have 1: "e = None" "csv_err c' = None" "room (csv_w c') = None"
    "written (csv_w c') @ csv_buf c' = written (csv_w c) @ csv_buf c @ csv_line r"
    by (simp_all add: csv_Write_def)
  from Cons.IH[OF 1(3) 1(2)] 1 w show ?case by simp
qed

lemma writCSV_ok:
  assumes "room writer = None" "csv_content S P T records = Inr content"
  shows "writCSV S P T records writer
    = Inr (writer\<lparr>written := written writer @ concat (map csv_line content)\<rparr>, None)"
proof -
  let ?c0 = "csv_NewWriter writer"
  obtain c e where w: "write_records ?c0 content = (c, e)" by (cases "write_records ?c0 content")
  have 0: "room (csv_w ?c0) = None" "csv_err ?c0 = None"
    using assms(1) by (simp_all add: csv_NewWriter_def)
  from write_records_ok[OF 0, of content] w
  have 1: "e = None" "csv_err c = None" "room (csv_w c) = None"
    "written (csv_w c) @ csv_buf c = written writer @ concat (map csv_line content)"
    by (simp_all add: csv_NewWriter_def)
  from csv_Flush_ok[OF 1(3) 1(2)] 1(4)
  have 2: "room (csv_w (csv_Flush c)) = None"
    "written (csv_w (csv_Flush c)) = written writer @ concat (map csv_line content)"
    by simp_all
  have "csv_w (csv_Flush c) = writer\<lparr>written := written writer @ concat (map csv_line content)\<rparr>"
    using 2 assms(1) by simp
  then show ?thesis
    using assms(2) w 1(1) by (simp add: writCSV_def)
qed

lemma headers_descriptor: "headers (map descriptor fs) = header_row (rtype k fs e)"
  by (induction fs) (simp_all add: header_row_def descriptor_def)

lemma headers_header_row: "headers (map descriptor (Type_Fields t)) = header_row t"
  using headers_descriptor[of "Type_Fields t" "Type_Kind t" "Type_Elem t"] by simp

lemma fields_descriptor: "fields (map descriptor fs) = map Name fs"
  by (induction fs) (simp_all add: descriptor_def)

lemma csv_content_struct:
  assumes "struct_type T = Inr t" "Type_Kind t = Struct"
  shows "csv_content S P T records =
     (case rows S P (map Name (Type_Fields t)) (elems records) of
        Inl p \<Rightarrow> Inl p
      | Inr rs \<Rightarrow> Inr (header_row t # rs))"
  using assms
  by (simp add: csv_content_def discover_struct fields_descriptor headers_header_row split: sum.splits)

lemma csv_content_not_struct:
  assumes "struct_type T = Inr t" "Type_Kind t \<noteq> Struct"
  shows "csv_content S P T records = Inl NotStruct"
  using assms by (simp add: csv_content_def discover_not_struct)

lemma csv_content_returns:
  assumes "csv_content S P T records = Inr content"
  shows "\<exists>t rs. struct_type T = Inr t \<and> Type_Kind t = Struct \<and> content = header_row t # rs"
proof (cases "struct_type T")
  case (Inl p)
  with assms show ?thesis by (simp add: csv_content_def)
next
  case (Inr t)
  show ?thesis
  proof (cases "Type_Kind t = Struct")
    case True
    with assms Inr show ?thesis
      by (auto simp: csv_content_struct split: sum.splits)
  next
    case False
    with assms Inr show ?thesis by (simp add: csv_content_not_struct)
  qed
qed

lemma toString_Zero_Value: "toString S Zero_Value = Inr ''<invalid Value>''"
  by (simp add: toString_def)

lemma row_append:
  "row S P v (a @ b) =
     (case row S P v a of
        Inl p \<Rightarrow> Inl p
      | Inr ca \<Rightarrow> (case row S P v b of Inl p \<Rightarrow> Inl p | Inr cb \<Rightarrow> Inr (ca @ cb)))"
  by (induction a) (simp_all split: sum.splits)

section \<open>Properties of the structured renderer\<close>









declare appendIndent.simps [simp del]































section \<open>Properties of the dispatch\<close>

lemma Write_json:
  "ToLower (TrimSpace format) = ''json'' \<Longrightarrow>
   Write S P enc enc_slice T format writer records = Inr (writeJson enc enc_slice T records writer)"
  by (simp add: Write_def)

lemma Write_csv:
  "ToLower (TrimSpace format) = ''csv'' \<Longrightarrow>
   Write S P enc enc_slice T format writer records = writCSV S P T records writer"
  by (simp add: Write_def)

lemma Write_other:
  "ToLower (TrimSpace format) \<noteq> ''json'' \<Longrightarrow> ToLower (TrimSpace format) \<noteq> ''csv'' \<Longrightarrow>
   Write S P enc enc_slice T format writer records = Inr (writer, None)"
  by (simp add: Write_def Let_def)

lemma trim_prefixes_None:
  "find (\<lambda>p. p \<noteq> [] \<and> take (length p) s = p) ps = None \<Longrightarrow> trim_prefixes ps s = s"
  by (subst trim_prefixes.simps) simp

lemma trim_prefixes_Some:
  "find (\<lambda>p. p \<noteq> [] \<and> take (length p) s = p) ps = Some p \<Longrightarrow>
     trim_prefixes ps s = trim_prefixes ps (drop (length p) s)"
  by (subst trim_prefixes.simps) simp

lemma normalise_examples:
  "ToLower (TrimSpace ''json'') = ''json''"
  "ToLower (TrimSpace ''csv'') = ''csv''"
  "ToLower (TrimSpace [CHR '' '', CHR ''J'', CHR ''s'', CHR ''O'', CHR ''N'', CHR 0x09]) = ''json''"
  "ToLower (TrimSpace [CHR 0xC2, CHR 0xA0, CHR ''C'', CHR ''S'', CHR ''V'', CHR 0x0A]) = ''csv''"
  "ToLower (TrimSpace '''') = ''''"
  "ToLower (TrimSpace ''xml'') = ''xml''"
  by (simp_all add: ToLower_def TrimSpace_def trim_prefixes_None trim_prefixes_Some unicode_spaces_def)

section \<open>The examples, evaluated\<close>


lemma Person_struct: "struct_type (Some Person) = Inr Person" "Type_Kind Person = Struct"
  by (simp_all add: struct_type_def Person_def)

lemma Person_header: "header_row Person = [''full_name'', ''Age'']"
  by (simp add: header_row_def Person_def Tag_Get_def)

lemma Person_fields: "map Name (Type_Fields Person) = [''Name'', ''Age'']"
  by (simp add: Person_def)



lemma csv_lines:
  "csv_line [''full_name'', ''Age''] = ''full_name,Age'' @ [CHR 0x0A]"
  "csv_line [''Ann'', ''30''] = ''Ann,30'' @ [CHR 0x0A]"
  "csv_line [''Bo'', ''4''] = ''Bo,4'' @ [CHR 0x0A]"
  by (simp_all add: csv_line_def csv_field_def fieldNeedsQuotes_def space_prefix_def unicode_spaces_def)

section \<open>The claims about \<open>Write\<close>\<close>


lemma stdout_simps: "room stdout = None" "written stdout = []"
  by (simp_all add: stdout_def)



text \<open>
  Claim C7. With the selector \<^verbatim>\<open>csv\<close> and no records (a nil or an empty list), for a
  struct type or a pointer to one, on a stream that does not fail: \<open>Write\<close> writes
  the header row and its line feed, nothing else, and returns no error.
\<close>

theorem Write_csv_empty:
  assumes "ToLower (TrimSpace format) = ''csv''"
    and "struct_type T = Inr t" and "Type_Kind t = Struct"
    and "elems records = []"
    and "room writer = None"
  shows "Write S P enc enc_slice T format writer records
     = Inr (writer\<lparr>written := written writer @ csv_line (header_row t)\<rparr>, None)"
proof -
  have c: "csv_content S P T records = Inr [header_row t]"
    using assms(2,3,4) by (simp add: csv_content_struct)
  from writCSV_ok[OF assms(5) c] assms(1) show ?thesis
    by (simp add: Write_def)
qed

theorem Write_csv_empty_witness:
  "ToLower (TrimSpace ''csv'') = ''csv''
   \<and> struct_type (Some Person) = Inr Person \<and> Type_Kind Person = Struct
   \<and> elems (Some []) = ([] :: Value list) \<and> room stdout = None
   \<and> Write no_time no_promoted no_enc no_enc_slice (Some Person) ''csv'' stdout (Some [])
     = Inr (stdout\<lparr>written := ''full_name,Age'' @ [CHR 0x0A]\<rparr>, None)"
proof -
  have e: "elems (Some []) = ([] :: Value list)" by (simp add: elems_def)
  from Write_csv_empty[OF normalise_examples(2) Person_struct e stdout_simps(1),
      of no_time no_promoted no_enc no_enc_slice]
  have "Write no_time no_promoted no_enc no_enc_slice (Some Person) ''csv'' stdout (Some [])
     = Inr (stdout\<lparr>written := ''full_name,Age'' @ [CHR 0x0A]\<rparr>, None)"
    by (simp add: Person_header csv_lines stdout_simps)
  with normalise_examples(2) Person_struct e stdout_simps(1) show ?thesis by blast
qed




lemma toString_String: "toString S (Value t ro (String_P s)) = Inr s"
  by (simp add: toString_def)

text \<open>
  Claim C4 fails on the code. A value read through an unexported field is read-only.
  When its type prints as \<^verbatim>\<open>time.Time\<close>, \<open>toString\<close> calls \<^verbatim>\<open>v.Interface()\<close>, which
  panics on a read-only value: \<open>toString\<close> returns no string, whatever the fields
  of the time are, and \<open>Write\<close> with the selector \<^verbatim>\<open>csv\<close> panics on a record of the
  type \<^verbatim>\<open>struct { Name string; created time.Time }\<close>.
\<close>

theorem toString_unexported_time_panics:
  "toString S (Value timeTime True (Struct_P tm)) = Inl InterfaceOfUnexported
   \<and> Write S P enc enc_slice (Some Event) ''csv'' writer (Some [event n tm]) = Inl InterfaceOfUnexported"
proof -
  have t: "toString S (Value timeTime True (Struct_P tm)) = Inl InterfaceOfUnexported"
    by (simp add: toString_def timeTime_def)
  have s: "struct_type (Some Event) = Inr Event" "Type_Kind Event = Struct"
    by (simp_all add: struct_type_def Event_def)
  have f: "map Name (Type_Fields Event) = [''Name'', ''created'']"
    by (simp add: Event_def)
  have r: "row S P (event n tm) [''Name'', ''created''] = Inl InterfaceOfUnexported"
    using t by (simp add: event_def IsExported_def toString_String)
  have "rows S P [''Name'', ''created''] [event n tm] = Inl InterfaceOfUnexported"
    using r by (simp add: record_value_def) (simp add: event_def)
  then have "csv_content S P (Some Event) (Some [event n tm]) = Inl InterfaceOfUnexported"
    unfolding csv_content_struct[OF s] f by (simp add: elems_def)
  then have "Write S P enc enc_slice (Some Event) ''csv'' writer (Some [event n tm]) = Inl InterfaceOfUnexported"
    using normalise_examples(2) by (simp add: Write_def writCSV_def)
  with t show ?thesis by blast
qed

text \<open>
  Claim C9 fails on the code. A value of an unsigned integer kind falls through the
  switch, and the test of line 158 compares the printed name of its type only. A type
  \<^verbatim>\<open>Time\<close> that a package named \<^verbatim>\<open>time\<close> other than the standard one declares as
  \<^verbatim>\<open>uint32\<close> prints as \<^verbatim>\<open>time.Time\<close>, so that line 159 asserts the standard type on
  it and panics: \<open>toString\<close> returns no string, not the empty one, and \<open>Write\<close>
  with the selector \<^verbatim>\<open>csv\<close> panics on a record with a field of that type.
\<close>

theorem toString_unsigned_time_name_panics:
  "toString S (Value otherTime False (Uint32_P a)) = Inl (TypeAssertion ''time.Time'')
   \<and> Write S P enc enc_slice (Some Tick) ''csv'' writer (Some [tick n a])
       = Inl (TypeAssertion ''time.Time'')"
proof -
  have t: "toString S (Value otherTime False (Uint32_P a)) = Inl (TypeAssertion ''time.Time'')"
    by (simp add: toString_def timeTime_def otherTime_def)
  have s: "struct_type (Some Tick) = Inr Tick" "Type_Kind Tick = Struct"
    by (simp_all add: struct_type_def Tick_def)
  have f: "map Name (Type_Fields Tick) = [''Name'', ''At'']"
    by (simp add: Tick_def)
  have r: "row S P (tick n a) [''Name'', ''At''] = Inl (TypeAssertion ''time.Time'')"
    using t by (simp add: tick_def IsExported_def toString_String)
  have "rows S P [''Name'', ''At''] [tick n a] = Inl (TypeAssertion ''time.Time'')"
    using r by (simp add: record_value_def) (simp add: tick_def)
  then have "csv_content S P (Some Tick) (Some [tick n a]) = Inl (TypeAssertion ''time.Time'')"
    unfolding csv_content_struct[OF s] f by (simp add: elems_def)
  then have "Write S P enc enc_slice (Some Tick) ''csv'' writer (Some [tick n a])
      = Inl (TypeAssertion ''time.Time'')"
    using normalise_examples(2) by (simp add: Write_def writCSV_def)
  with t show ?thesis by blast
qed

text \<open>
  Claim C6. Whenever the tabular renderer produces rows for two record lists of the
  same type \<open>T\<close> (one of them may be empty), the two header rows are the same row:
  the header row of the struct type that \<open>T\<close> is or points to. On a stream that does
  not fail both outputs begin with that row's line.
\<close>

theorem header_row_of_type:
  assumes "csv_content S P T records = Inr content"
    and "csv_content S' P' T records' = Inr content'"
  shows "hd content' = hd content
    \<and> (\<exists>t. struct_type T = Inr t \<and> hd content = header_row t)
    \<and> (\<forall>writer. room writer = None \<longrightarrow>
          (\<exists>body body'.
             writCSV S P T records writer
               = Inr (writer\<lparr>written := written writer @ csv_line (hd content) @ body\<rparr>, None)
             \<and> writCSV S' P' T records' writer
               = Inr (writer\<lparr>written := written writer @ csv_line (hd content) @ body'\<rparr>, None)))"
proof -
  from csv_content_returns[OF assms(1)] obtain t rs where
    t: "struct_type T = Inr t" and c: "content = header_row t # rs" by blast
  from csv_content_returns[OF assms(2)] obtain t' rs' where
    t': "struct_type T = Inr t'" and c': "content' = header_row t' # rs'" by blast
  from t t' have tt: "t' = t" by simp
  have w: "writCSV S P T records writer
             = Inr (writer\<lparr>written := written writer @ csv_line (hd content) @ concat (map csv_line rs)\<rparr>, None)
         \<and> writCSV S' P' T records' writer
             = Inr (writer\<lparr>written := written writer @ csv_line (hd content) @ concat (map csv_line rs')\<rparr>, None)"
    if "room writer = None" for writer
    using writCSV_ok[OF that assms(1)] writCSV_ok[OF that assms(2)]
    by (simp add: c c' tt)
  from c c' tt t w show ?thesis by auto
qed

theorem header_row_of_type_witness:
  "csv_content no_time no_promoted (Some (rtype Pointer [] (Some Person)))
       (Some [Value (predeclared ''*main.Person'') False (Pointer_P (Some (person ''Ann'' 30)))])
     = Inr [[''full_name'', ''Age''], [''Ann'', ''30'']]
   \<and> csv_content no_time no_promoted (Some (rtype Pointer [] (Some Person))) None = Inr [[''full_name'', ''Age'']]
   \<and> hd [[''full_name'', ''Age'']] = hd [[''full_name'', ''Age''], [''Ann'', ''30'']]
   \<and> struct_type (Some (rtype Pointer [] (Some Person))) = Inr Person
   \<and> header_row Person = [''full_name'', ''Age'']"
proof -
  let ?T = "Some (rtype Pointer [] (Some Person))"
  let ?p = "Value (predeclared ''*main.Person'') False (Pointer_P (Some (person ''Ann'' 30)))"
  have s: "struct_type ?T = Inr Person"
    by (simp add: struct_type_def Elem_def)
  have v: "record_value ?p = Inr (person ''Ann'' 30)"
    by (simp add: record_value_def person_def)
  have r: "row no_time no_promoted (person ''Ann'' 30) [''Name'', ''Age''] = Inr [''Ann'', ''30'']"
    by (simp add: person_def toString_def IsExported_def
        FormatInt_def formatBits_def digits.simps digit_def)
  have rs: "rows no_time no_promoted [''Name'', ''Age''] [?p] = Inr [[''Ann'', ''30'']]"
    unfolding rows.simps v sum.case r by (rule refl)
  have 1: "csv_content no_time no_promoted ?T (Some [?p]) = Inr [[''full_name'', ''Age''], [''Ann'', ''30'']]"
    unfolding csv_content_struct[OF s Person_struct(2)] Person_fields elems_def option.case
      rs sum.case Person_header
    by (rule refl)
  have 2: "csv_content no_time no_promoted ?T None = Inr [[''full_name'', ''Age'']]"
    unfolding csv_content_struct[OF s Person_struct(2)] Person_fields elems_def option.case
      rows.simps sum.case Person_header
    by (rule refl)
  from header_row_of_type[OF 1 2]
  have "hd [[''full_name'', ''Age'']] = hd [[''full_name'', ''Age''], [''Ann'', ''30'']]"
    by blast
  with 1 2 s Person_header show ?thesis by blast
qed













section \<open>The lookup of a record's fields\<close>

text \<open>
  The names that \<^verbatim>\<open>writCSV\<close> looks up in a record are the names of the fields of the
  record's own struct type, so that the lookup of line 130 finds a field of the record
  itself whenever there is a record to look into.
\<close>

lemma find_named:
  "field \<in> Name ` fst ` set fs \<Longrightarrow>
   \<exists>f y. find (\<lambda>(f, x). Name f = field) fs = Some (f, y) \<and> (f, y) \<in> set fs \<and> Name f = field"
  by (induction fs) auto

lemma set_RO_Zero: "set_RO ro x = Zero_Value \<longleftrightarrow> x = Zero_Value"
  by (cases x) simp_all

lemma struct_of_cases:
  "struct_of t v \<Longrightarrow>
   \<exists>ty ro fs. v = Value ty ro (Struct_P fs) \<and> Type_Kind t = Struct \<and> map fst fs = Type_Fields t
     \<and> list_all (\<lambda>(f, x). Name f \<noteq> [] \<and> x \<noteq> Zero_Value) fs"
  by (induction t v rule: struct_of.induct) simp_all

lemma record_of_value:
  assumes "record_of T r" "\<not> nil_pointer r" "struct_type (Some T) = Inr t"
  shows "\<exists>v. record_value r = Inr v \<and> struct_of t v"
  using assms
proof (induction T r rule: record_of.induct)
  case (1 T ty ro)
  then show ?case by simp
next
  case (2 T ty ro x)
  then obtain e where e: "Type_Elem T = Some e" "struct_of e x" "Type_Kind T = Pointer"
    by (auto split: option.splits)
  with 2 have "t = e" by (simp add: struct_type_def Elem_def)
  from struct_of_cases[OF e(2)] obtain ty' ro' fs where
    x: "x = Value ty' ro' (Struct_P fs)" by blast
  with e \<open>t = e\<close> show ?case by (simp add: record_value_def)
qed (auto simp: record_value_def struct_type_def dest: struct_of_cases)

lemma discover_fields:
  assumes "discover t 0 [] = Inr d"
  shows "Type_Kind t = Struct \<and> fields d = map Name (Type_Fields t)"
proof (cases "Type_Kind t = Struct")
  case True
  with assms have "d = map descriptor (Type_Fields t)" by (simp add: discover_struct)
  with True show ?thesis by (simp add: fields_descriptor)
next
  case False
  with assms show ?thesis by (simp add: discover_not_struct)
qed

text \<open>
  Claim C1, as amended. Let \<open>T\<close> be a struct type or a pointer to one, and \<open>r\<close> a record
  of type \<open>T\<close> that is not a nil pointer. Then \<open>r\<close> has every field that the descriptor
  sequence names: the lookup of line 130 returns a field of that name of the record
  and never the zero Value, whatever the search of embedded fields would find. The
  zero Value itself is stringified to the text \<^verbatim>\<open><invalid Value>\<close>, without a panic.
\<close>

theorem record_field_lookup:
  assumes "record_of T r" and "\<not> nil_pointer r"
    and "struct_type (Some T) = Inr t" and "discover t 0 [] = Inr fieldWithTags"
    and "field \<in> set (fields fieldWithTags)"
  shows "(\<exists>ty ro fs f x.
            record_value r = Inr (Value ty ro (Struct_P fs)) \<and> (f, x) \<in> set fs \<and> Name f = field
            \<and> FieldByName P (Value ty ro (Struct_P fs)) field = Inr (set_RO (ro \<or> \<not> IsExported f) x)
            \<and> set_RO (ro \<or> \<not> IsExported f) x \<noteq> Zero_Value)
    \<and> toString S Zero_Value = Inr ''<invalid Value>''"
proof -
  from discover_fields[OF assms(4)] assms(5)
  have n: "field \<in> Name ` set (Type_Fields t)" by simp
  from record_of_value[OF assms(1-3)] obtain v where
    v: "record_value r = Inr v" "struct_of t v" by blast
  from struct_of_cases[OF v(2)] obtain ty ro fs where
    s: "v = Value ty ro (Struct_P fs)" "map fst fs = Type_Fields t"
       "list_all (\<lambda>(f, x). Name f \<noteq> [] \<and> x \<noteq> Zero_Value) fs"
    by blast
  from n s(2) have "field \<in> Name ` fst ` set fs"
    by (metis image_image list.set_map)
  from find_named[OF this] obtain f x where
    f: "find (\<lambda>(f, x). Name f = field) fs = Some (f, x)" "(f, x) \<in> set fs" "Name f = field"
    by blast
  from s(3) f(2) have nz: "Name f \<noteq> []" "x \<noteq> Zero_Value"
    by (auto simp: list_all_iff)
  have l: "FieldByName P (Value ty ro (Struct_P fs)) field = Inr (set_RO (ro \<or> \<not> IsExported f) x)"
    using f nz by simp
  from v(1) s(1) f(2,3) l nz(2) show ?thesis
    by (auto simp: set_RO_Zero toString_Zero_Value)
qed

theorem record_field_lookup_witness:
  "record_of (rtype Pointer [] (Some Person))
     (Value (predeclared ''*main.Person'') False (Pointer_P (Some (person ''Ann'' 30))))
   \<and> \<not> nil_pointer (Value (predeclared ''*main.Person'') False (Pointer_P (Some (person ''Ann'' 30))))
   \<and> struct_type (Some (rtype Pointer [] (Some Person))) = Inr Person
   \<and> discover Person 0 [] = Inr [\<lparr>name = ''Name'', tag = ''full_name''\<rparr>, \<lparr>name = ''Age'', tag = []\<rparr>]
   \<and> ''Age'' \<in> set (fields [\<lparr>name = ''Name'', tag = ''full_name''\<rparr>, \<lparr>name = ''Age'', tag = []\<rparr>])
   \<and> record_value (Value (predeclared ''*main.Person'') False (Pointer_P (Some (person ''Ann'' 30))))
       = Inr (person ''Ann'' 30)
   \<and> FieldByName no_promoted (person ''Ann'' 30) ''Age'' \<noteq> Inr Zero_Value"
proof -
  let ?T = "rtype Pointer [] (Some Person)"
  let ?r = "Value (predeclared ''*main.Person'') False (Pointer_P (Some (person ''Ann'' 30)))"
  let ?d = "[\<lparr>name = ''Name'', tag = ''full_name''\<rparr>, \<lparr>name = ''Age'', tag = []\<rparr>]"
  have 1: "record_of ?T ?r" by (simp add: Person_def person_def)
  have 2: "\<not> nil_pointer ?r" by simp
  have 3: "struct_type (Some ?T) = Inr Person" by (simp add: struct_type_def Elem_def)
  have 4: "discover Person 0 [] = Inr ?d"
    by (simp add: discover_struct Person_def descriptor_def Tag_Get_def)
  have 5: "''Age'' \<in> set (fields ?d)" by simp
  have 6: "record_value ?r = Inr (person ''Ann'' 30)"
    by (simp add: record_value_def person_def)
  from record_field_lookup[OF 1 2 3 4 5, of no_promoted no_time] obtain ty ro fs f x where
    l: "record_value ?r = Inr (Value ty ro (Struct_P fs))"
       "FieldByName no_promoted (Value ty ro (Struct_P fs)) ''Age'' = Inr (set_RO (ro \<or> \<not> IsExported f) x)"
       "set_RO (ro \<or> \<not> IsExported f) x \<noteq> Zero_Value"
    by blast
  from l(1) 6 have "Value ty ro (Struct_P fs) = person ''Ann'' 30" by simp
  with l(2,3) have 7: "FieldByName no_promoted (person ''Ann'' 30) ''Age'' \<noteq> Inr Zero_Value" by simp
  from 1 2 3 4 5 6 7 show ?thesis by blast
qed

text \<open>
  Claim C1 as stated fails. The zero Value, which is what a lookup that finds no field
  returns, is stringified to \<^verbatim>\<open><invalid Value>\<close> and not to the empty string. And the one
  record of a \<^verbatim>\<open>[]*Person\<close> that has none of the fields, a nil pointer, makes the lookup
  panic: line 125 takes the zero Value from it and line 130 calls \<^verbatim>\<open>FieldByName\<close> on
  that.
\<close>

theorem nil_record_counterexample:
  "toString no_time Zero_Value = Inr ''<invalid Value>''
   \<and> Write no_time no_promoted no_enc no_enc_slice (Some (rtype Pointer [] (Some Person))) ''csv'' stdout
        (Some [Value (predeclared ''*main.Person'') False (Pointer_P None)])
      = Inl (ValueError ''reflect.Value.FieldByName'' Invalid)"
proof -
  let ?T = "rtype Pointer [] (Some Person)"
  let ?n = "Value (predeclared ''*main.Person'') False (Pointer_P None)"
  have s: "struct_type (Some ?T) = Inr Person" by (simp add: struct_type_def Elem_def)
  have r: "rows no_time no_promoted (map Name (Type_Fields Person)) [?n]
      = Inl (ValueError ''reflect.Value.FieldByName'' Invalid)"
    by (simp add: record_value_def Person_def)
  have "csv_content no_time no_promoted (Some ?T) (Some [?n])
      = Inl (ValueError ''reflect.Value.FieldByName'' Invalid)"
    unfolding csv_content_struct[OF s Person_struct(2)] elems_def option.case r by simp
  then show ?thesis
    using normalise_examples(2) by (simp add: Write_def writCSV_def toString_Zero_Value)
qed

end
